theory Spec2Isabelle
  imports Main
begin

section \<open>Python values, resource classes and errors\<close>

text \<open>
  The library is Python 2 code. A byte string (\<open>str\<close>) is the list of its bytes; a
  \<open>unicode\<close> object is the list of its code units, here units below 256 (the labels the
  parsers look for and the texts they convert are in that range). \<open>PInt\<close> is the type
  \<open>int\<close>, \<open>PLong\<close> the separate arbitrary-precision type \<open>long\<close>; \<open>bool\<close> is a
  subclass of \<open>int\<close>.
\<close>

datatype rclass = Anime | Manga | Person | Character | Genre | Tag | Producer | Publication
  | MediaList

datatype pyval =
    PNone
  | PBool bool
  | PInt int
  | PLong int
  | PFloat int int
  | PStr string
  | PUnicode string
  | PDecimal string
  | PDate int int int
  | PTuple "pyval list"
  | PList "pyval list"
  | PDict "(pyval \<times> pyval) list"
  | PRef rclass pyval

datatype error =
    InvalidMediaError pyval
  | InvalidAnimeError pyval
  | InvalidMangaError pyval
  | InvalidPersonError pyval
  | InvalidMediaListError
  | MalformedMediaPageError string
  | MalformedAnimePageError string
  | MalformedMangaPageError string
  | MalformedMediaListPageError string
  | AttributeError
  | IndexError
  | ValueError
  | NameError
  | UnboundLocalError
  | TypeError
  | InvalidOperation
  | UnicodeDecodeError
  | UnicodeEncodeError

text \<open>The two error families of the library, by class (subclasses included).\<close>

fun is_invalid_entity :: "error \<Rightarrow> bool" where
  "is_invalid_entity (InvalidMediaError _) = True"
| "is_invalid_entity (InvalidAnimeError _) = True"
| "is_invalid_entity (InvalidMangaError _) = True"
| "is_invalid_entity (InvalidPersonError _) = True"
| "is_invalid_entity InvalidMediaListError = True"
| "is_invalid_entity _ = False"

fun is_malformed_page :: "error \<Rightarrow> bool" where
  "is_malformed_page (MalformedMediaPageError _) = True"
| "is_malformed_page (MalformedAnimePageError _) = True"
| "is_malformed_page (MalformedMangaPageError _) = True"
| "is_malformed_page (MalformedMediaListPageError _) = True"
| "is_malformed_page _ = False"

section \<open>Sessions, the network and resource objects\<close>

text \<open>
  A session carries the suppression flag. The network is the log of the requests made
  so far; every function that could reach the network takes the log and returns it. A
  request stands for its URL: \<open>MainPage c i\<close> for
  \<open>http://myanimelist.net/<class name>/<str(id)>\<close>, \<open>StatsPage c i t\<close> and
  \<open>CharactersPage c i t\<close> for the same followed by \<open>/<encoded title>/stats\<close> and
  \<open>/characters\<close>, \<open>ListPage type username\<close> for the list export of a user.
  A resource object is its class, its identity attribute (\<open>id\<close> or \<open>username\<close>), the
  session it was given and its instance dictionary of cache slots (\<open>_title\<close>, ...).
\<close>

record session =
  suppress_parse_exceptions :: bool

datatype request =
    MainPage rclass pyval
  | StatsPage rclass pyval string
  | CharactersPage rclass pyval string
  | ListPage string pyval

record world =
  requests :: "request list"

record resource =
  cls :: rclass
  ident :: pyval
  sess :: session
  slots :: "string \<rightharpoonup> pyval"

text \<open>\<open>self._a = None\<close> for each name of a list, onto an instance dictionary.\<close>

fun set_none :: "string list \<Rightarrow> (string \<rightharpoonup> pyval) \<Rightarrow> (string \<rightharpoonup> pyval)" where
  "set_none [] d = d"
| "set_none (a # as) d = set_none as (d(a \<mapsto> PNone))"

definition media_slots :: "string list" where
  "media_slots = [''_title'', ''_picture'', ''_alternative_titles'', ''_type'', ''_status'',
     ''_genres'', ''_score'', ''_rank'', ''_popularity'', ''_members'', ''_favorites'',
     ''_popular_tags'', ''_synopsis'', ''_related'', ''_characters'', ''_score_stats'',
     ''_status_stats'']"

definition anime_slots :: "string list" where
  "anime_slots = [''_episodes'', ''_aired'', ''_producers'', ''_duration'', ''_rating'',
     ''_voice_actors'', ''_staff'']"

definition manga_slots :: "string list" where
  "manga_slots = [''_volumes'', ''_chapters'', ''_published'', ''_authors'',
     ''_serialization'']"

definition person_slots :: "string list" where
  "person_slots = [''_name'', ''_voice_acting_roles'', ''_anime_staff_positions'',
     ''_published_manga'']"

definition media_list_slots :: "string list" where
  "media_list_slots = [''_list'', ''_stats'']"

section \<open>Constructors\<close>

text \<open>
  The guard \<open>not isinstance(x, int) or int(x) < 1\<close>. \<open>isinstance(x, int)\<close> holds of an
  \<open>int\<close> and of a \<open>bool\<close> only (a \<open>long\<close> is not an \<open>int\<close> in Python 2); \<open>or\<close>
  evaluates \<open>int(x)\<close> only for those, where it is the value itself, \<open>True\<close> being 1.
\<close>

fun bad_id :: "pyval \<Rightarrow> bool" where
  "bad_id (PInt n) = (n < 1)"
| "bad_id (PBool b) = ((if b then 1 else 0 :: int) < 1)"
| "bad_id _ = True"

text \<open>
  Modelled from the spec: \<open>Base.__init__\<close> (base.py is not under src/) records the owning
  session on the new object and does nothing else.
\<close>

definition Base_init :: "rclass \<Rightarrow> session \<Rightarrow> resource" where
  "Base_init c s = \<lparr>cls = c, ident = PNone, sess = s, slots = Map.empty\<rparr>"

text \<open>\<open>Media.__init__\<close>, run for an object of class \<open>c\<close> (media.py 75-107).\<close>

definition Media_init :: "rclass \<Rightarrow> session \<Rightarrow> pyval \<Rightarrow> world \<Rightarrow> (error + resource) \<times> world" where
  "Media_init c s i w =
     (let self = (Base_init c s)\<lparr>ident := i\<rparr>
      in if bad_id (ident self) then (Inl (InvalidMediaError (ident self)), w)
         else (Inr (self\<lparr>slots := set_none media_slots (slots self)\<rparr>), w))"

text \<open>\<open>Anime.__init__\<close> (anime.py 34-54): its own guard, then the superclass, then its slots.\<close>

definition Anime_init :: "session \<Rightarrow> pyval \<Rightarrow> world \<Rightarrow> (error + resource) \<times> world" where
  "Anime_init s anime_id w =
     (if bad_id anime_id then (Inl (InvalidAnimeError anime_id), w)
      else case Media_init Anime s anime_id w of
             (Inl e, w') \<Rightarrow> (Inl e, w')
           | (Inr self, w') \<Rightarrow> (Inr (self\<lparr>slots := set_none anime_slots (slots self)\<rparr>), w'))"

text \<open>\<open>Manga.__init__\<close> (manga.py 31-49).\<close>

definition Manga_init :: "session \<Rightarrow> pyval \<Rightarrow> world \<Rightarrow> (error + resource) \<times> world" where
  "Manga_init s manga_id w =
     (if bad_id manga_id then (Inl (InvalidMangaError manga_id), w)
      else case Media_init Manga s manga_id w of
             (Inl e, w') \<Rightarrow> (Inl e, w')
           | (Inr self, w') \<Rightarrow> (Inr (self\<lparr>slots := set_none manga_slots (slots self)\<rparr>), w'))"

text \<open>\<open>Person.__init__\<close> (person.py 20-29).\<close>

definition Person_init :: "session \<Rightarrow> pyval \<Rightarrow> world \<Rightarrow> (error + resource) \<times> world" where
  "Person_init s person_id w =
     (let self = (Base_init Person s)\<lparr>ident := person_id\<rparr>
      in if bad_id (ident self) then (Inl (InvalidPersonError (ident self)), w)
         else (Inr (self\<lparr>slots := set_none person_slots (slots self)\<rparr>), w))"

subsection \<open>The media-list errors and constructor\<close>

text \<open>
  \<open>str.decode('utf-8')\<close> of Python 2.7 on a byte string: whether it succeeds. Lead bytes
  C2-DF take one continuation byte, E0-EF two, F0-F4 three; E0, F0 and F4 restrict the
  second byte; everything else is rejected.
\<close>

definition utf8_cont :: "nat \<Rightarrow> bool" where
  "utf8_cont b = (128 \<le> b \<and> b < 192)"

fun utf8_valid :: "nat list \<Rightarrow> bool" where
  "utf8_valid [] = True"
| "utf8_valid (b # bs) =
     (if b < 128 then utf8_valid bs
      else if 194 \<le> b \<and> b < 224 then
        (case bs of c1 # r \<Rightarrow> utf8_cont c1 \<and> utf8_valid r | _ \<Rightarrow> False)
      else if 224 \<le> b \<and> b < 240 then
        (case bs of c1 # c2 # r \<Rightarrow>
           utf8_cont c1 \<and> utf8_cont c2 \<and> \<not> (b = 224 \<and> c1 < 160) \<and> utf8_valid r
         | _ \<Rightarrow> False)
      else if 240 \<le> b \<and> b < 245 then
        (case bs of c1 # c2 # c3 # r \<Rightarrow>
           utf8_cont c1 \<and> utf8_cont c2 \<and> utf8_cont c3 \<and> \<not> (b = 240 \<and> c1 < 144)
           \<and> \<not> (b = 244 \<and> 143 < c1) \<and> utf8_valid r
         | _ \<Rightarrow> False)
      else False)"

text \<open>
  \<open>str(x).decode('utf-8')\<close> for a value that is not \<open>unicode\<close>: \<open>str\<close> of a byte string
  is the string itself; \<open>str\<close> of the other values is ASCII text, which always decodes.
\<close>

fun str_decodes :: "pyval \<Rightarrow> bool" where
  "str_decodes (PStr b) = utf8_valid (map of_char b)"
| "str_decodes _ = True"

fun is_unicode :: "pyval \<Rightarrow> bool" where
  "is_unicode (PUnicode _) = True"
| "is_unicode _ = False"

text \<open>
  \<open>raise InvalidMediaListError(username)\<close> (media_list.py 31-37): the exception that
  leaves the statement. The class's \<open>__init__\<close> keeps a \<open>unicode\<close> username and decodes
  anything else as UTF-8, which can itself raise.
\<close>

definition raise_InvalidMediaListError :: "pyval \<Rightarrow> error" where
  "raise_InvalidMediaListError username =
     (if is_unicode username then InvalidMediaListError
      else if str_decodes username then InvalidMediaListError
      else UnicodeDecodeError)"

text \<open>
  \<open>raise MalformedMediaListPageError(username, html, message)\<close> (media_list.py 13-23):
  the same treatment of the username, then of the page text.
\<close>

definition raise_MalformedMediaListPageError :: "pyval \<Rightarrow> pyval \<Rightarrow> string \<Rightarrow> error" where
  "raise_MalformedMediaListPageError username html message =
     (if \<not> is_unicode username \<and> \<not> str_decodes username then UnicodeDecodeError
      else if \<not> is_unicode html \<and> \<not> str_decodes html then UnicodeDecodeError
      else MalformedMediaListPageError message)"

text \<open>
  The guard \<open>not isinstance(self.username, unicode) or len(self.username) < 4\<close>.
\<close>

fun bad_username :: "pyval \<Rightarrow> bool" where
  "bad_username (PUnicode u) = (length u < 4)"
| "bad_username _ = True"

text \<open>\<open>MediaList.__init__\<close> (media_list.py 48-54).\<close>

definition MediaList_init :: "session \<Rightarrow> pyval \<Rightarrow> world \<Rightarrow> (error + resource) \<times> world" where
  "MediaList_init s user_name w =
     (let self = (Base_init MediaList s)\<lparr>ident := user_name\<rparr>
      in if bad_username (ident self) then (Inl (raise_InvalidMediaListError (ident self)), w)
         else (Inr (self\<lparr>slots := set_none media_list_slots (slots self)\<rparr>), w))"

section \<open>Text helpers\<close>

text \<open>
  Python's \<open>unicode.strip()\<close>, \<open>split\<close>, \<open>replace(',', '')\<close> and \<open>int(text)\<close> on texts
  of code units below 256. The whitespace of \<open>unicode\<close> in that range is 9-13, 28-32,
  133 and 160; the only decimal digits are 0-9.
\<close>

definition is_space :: "char \<Rightarrow> bool" where
  "is_space c = (let n = (of_char c :: nat)
                 in (9 \<le> n \<and> n \<le> 13) \<or> (28 \<le> n \<and> n \<le> 32) \<or> n = 133 \<or> n = 160)"

definition py_strip :: "string \<Rightarrow> string" where
  "py_strip s = rev (dropWhile is_space (rev (dropWhile is_space s)))"

definition remove_commas :: "string \<Rightarrow> string" where
  "remove_commas s = filter (\<lambda>c. c \<noteq> CHR '','') s"

text \<open>\<open>s.split(c)\<close> for a one-character separator: never empty.\<close>

fun split_chr :: "char \<Rightarrow> string \<Rightarrow> string list" where
  "split_chr c [] = [[]]"
| "split_chr c (x # xs) =
     (if x = c then [] # split_chr c xs
      else (case split_chr c xs of y # ys \<Rightarrow> (x # y) # ys | [] \<Rightarrow> [[x]]))"

text \<open>\<open>s.split(sep)\<close> for a separator of one character or more, left to right.\<close>

function split_str :: "string \<Rightarrow> string \<Rightarrow> string list" where
  "split_str sep [] = [[]]"
| "split_str sep (x # xs) =
     (if sep \<noteq> [] \<and> take (length sep) (x # xs) = sep
      then [] # split_str sep (drop (length sep) (x # xs))
      else (case split_str sep xs of y # ys \<Rightarrow> (x # y) # ys | [] \<Rightarrow> [[x]]))"
  by pat_completeness auto
termination
  by (relation "measure (\<lambda>(sep, s). length s)") (auto simp: neq_Nil_conv)

text \<open>Python indexing \<open>xs[i]\<close>: a negative index counts from the end.\<close>

definition py_index :: "'a list \<Rightarrow> int \<Rightarrow> error + 'a" where
  "py_index xs i =
     (if 0 \<le> i \<and> i < int (length xs) then Inr (xs ! nat i)
      else if i < 0 \<and> - int (length xs) \<le> i then Inr (xs ! nat (int (length xs) + i))
      else Inl IndexError)"

definition digit_of :: "char \<Rightarrow> nat option" where
  "digit_of c = (let n = (of_char c :: nat) in if 48 \<le> n \<and> n \<le> 57 then Some (n - 48) else None)"

fun digits_value :: "string \<Rightarrow> nat \<Rightarrow> nat option" where
  "digits_value [] acc = Some acc"
| "digits_value (c # cs) acc =
     (case digit_of c of None \<Rightarrow> None | Some d \<Rightarrow> digits_value cs (10 * acc + d))"

definition nat_of_digits :: "string \<Rightarrow> nat option" where
  "nat_of_digits s = (if s = [] then None else digits_value s 0)"

text \<open>
  \<open>int(text)\<close>: surrounding whitespace is dropped, one sign is allowed, then at least one
  digit and nothing else; anything else raises ValueError.
\<close>

definition py_int :: "string \<Rightarrow> error + int" where
  "py_int s =
     (case py_strip s of
        [] \<Rightarrow> Inl ValueError
      | c # r \<Rightarrow>
          if c = CHR ''-'' then
            (case nat_of_digits r of None \<Rightarrow> Inl ValueError | Some n \<Rightarrow> Inr (- int n))
          else if c = CHR ''+'' then
            (case nat_of_digits r of None \<Rightarrow> Inl ValueError | Some n \<Rightarrow> Inr (int n))
          else
            (case nat_of_digits (c # r) of None \<Rightarrow> Inl ValueError | Some n \<Rightarrow> Inr (int n)))"

text \<open>ASCII case mapping and \<open>str.capitalize()\<close>: first character up, the rest down.\<close>

definition upper_chr :: "char \<Rightarrow> char" where
  "upper_chr c = (let n = (of_char c :: nat) in if 97 \<le> n \<and> n \<le> 122 then char_of (n - 32) else c)"

definition lower_chr :: "char \<Rightarrow> char" where
  "lower_chr c = (let n = (of_char c :: nat) in if 65 \<le> n \<and> n \<le> 90 then char_of (n + 32) else c)"

definition capitalize :: "string \<Rightarrow> string" where
  "capitalize s = (case s of [] \<Rightarrow> [] | c # cs \<Rightarrow> upper_chr c # map lower_chr cs)"

text \<open>\<open>d[k] = v\<close> on a dictionary kept in insertion order.\<close>

fun dict_set :: "pyval \<Rightarrow> pyval \<Rightarrow> (pyval \<times> pyval) list \<Rightarrow> (pyval \<times> pyval) list" where
  "dict_set k v [] = [(k, v)]"
| "dict_set k v ((k', v') # d) = (if k' = k then (k, v) # d else (k', v') # dict_set k v d)"

section \<open>Pages as the parsers read them\<close>

text \<open>
  The parsers query a BeautifulSoup document. A document is modelled by the answers to
  the queries the parsers make: \<open>None\<close> where \<open>find\<close> returns \<open>None\<close>, the list where
  \<open>select\<close>, \<open>find_all\<close> or a list comprehension returns one. Each parser gets the cleaned
  document (\<open>page\<close>) and, optionally, the document as downloaded (\<open>orig\<close>).

  A body of a \<open>try\<close> statement leaves two things behind: what it stored under its key
  of the result dictionary, if anything, and the exception it raised, if any.
\<close>

type_synonym block_out = "pyval option \<times> error option"

type_synonym info = "string \<rightharpoonup> pyval"

definition of_result :: "error + pyval \<Rightarrow> block_out" where
  "of_result r = (case r of Inl e \<Rightarrow> (None, Some e) | Inr v \<Rightarrow> (Some v, None))"

text \<open>
  A tag bound to \<open>title_tag\<close>: whether it has a \<open>div\<close> inside, and its text once all
  the tags inside it are extracted.
\<close>

record tag =
  has_div :: bool
  own_text :: string

text \<open>
  A \<open>div.spaceit_pad\<close> after the "Alternative Titles" header: whether it holds a
  \<open>span.dark_text\<close>, the text of its first span, and its text without those spans.
\<close>

record alt_node =
  an_is_language :: bool
  an_span_text :: string
  an_rest_text :: string

text \<open>
  The first cell of \<open>select('div#content table td')\<close>. \<open>ip_img\<close>: the \<open>img\<close> and its
  \<open>src\<close>. \<open>ip_alt_titles\<close>: the header's following sibling nodes. \<open>ip_type\<close>,
  \<open>ip_ranked\<close>, \<open>ip_popularity\<close>, \<open>ip_members\<close>, \<open>ip_favorites\<close>: for the text node
  \<open>'Type:'\<close>, ..., the text of its grandparent once the label tags are extracted.
  \<open>ip_type_divs\<close>: the texts of the cell's \<open>div\<close>s that contain \<open>'Type:'\<close>.
\<close>

record info_panel =
  ip_img :: "string option option"
  ip_alt_titles :: "alt_node list option"
  ip_type :: "string option"
  ip_type_divs :: "string list"
  ip_ranked :: "string option"
  ip_popularity :: "string option"
  ip_members :: "string option"
  ip_favorites :: "string option"

text \<open>
  An \<open>aggregateRating\<close> element: the text of its \<open>ratingCount\<close> span, and for its
  \<open>ratingValue\<close> span what \<open>decimal.Decimal\<close> makes of the text (\<open>None\<close> when it raises
  InvalidOperation).
\<close>

record rating =
  rt_count :: "string option"
  rt_value :: "pyval option option"

datatype sibling = NoSibling | TextSibling string | TagSibling

text \<open>
  The cell \<open>find('div', id=content).find('table').find('td')\<close> of a manga page: the
  texts next to \<open>'Volumes:'\<close>, \<open>'Chapters:'\<close> and \<open>'Published:'\<close> (label extracted), and
  what the walk over the authors' links leaves.
\<close>

record manga_panel =
  mp_volumes :: "string option"
  mp_chapters :: "string option"
  mp_published :: "string option"
  mp_authors :: block_out

text \<open>
  The cleaned document. The fields of type \<open>block_out\<close> and \<open>error + pyval\<close> stand for
  bodies that walk links and build nested resources through the session's factories
  (session.py is not under src/): \<open>pg_popular_tags\<close> for media.py 304-322, \<open>pg_synopsis\<close>
  for \<open>parse_synopsis\<close>, \<open>pg_related\<close> for media.py 430-473, \<open>pg_characters\<close> for
  media.py 587-622, \<open>pg_producers\<close> for \<open>parse_producers\<close>, \<open>pg_serialization\<close> for
  \<open>parse_serialization\<close>.
\<close>

record page =
  pg_badresult :: bool
  pg_h1 :: "tag option option"
  pg_h1_span :: "string list"
  pg_name_span :: bool
  pg_status :: "string list"
  pg_rating_span :: "rating option"
  pg_rating_div :: "rating option"
  pg_popular_tags :: block_out
  pg_synopsis :: "error + pyval"
  pg_related :: block_out
  pg_characters :: block_out
  pg_content_td :: "manga_panel option option"
  pg_producers :: "error + pyval"
  pg_serialization :: "error + pyval"
  pg_stat_spans :: "string \<rightharpoonup> sibling"
  pg_score_rows :: "(string option \<times> string option) list option"

text \<open>
  The document as downloaded. \<open>og_ranked\<close>: the texts of the \<open>div.spaceit\<close> that contain
  \<open>'Ranked:'\<close>; \<open>og_popularity\<close>, \<open>og_members\<close>, \<open>og_favorites\<close>: the texts of the parents
  of the \<open>span.dark_text\<close> that contain the label; \<open>og_episodes\<close>, \<open>og_aired\<close>,
  \<open>og_rating\<close>: the same for any \<open>span\<close>. \<open>og_genres\<close> stands for \<open>parse_genres\<close>,
  \<open>og_duration\<close> for anime.py 154-167, \<open>og_voice_actors\<close> for anime.py 229-270 (the
  characters and the voice actors it leaves), \<open>og_staff\<close> for \<open>parse_staff\<close>.
\<close>

record orig =
  og_h1_span :: "tag list"
  og_name_span :: "string option"
  og_info_panel :: "info_panel list"
  og_genres :: "error + pyval"
  og_rating_value :: "pyval option option"
  og_ranked :: "string list"
  og_popularity :: "string list"
  og_members :: "string list"
  og_favorites :: "string list"
  og_episodes :: "string list"
  og_aired :: "string list"
  og_duration :: block_out
  og_rating :: "string list"
  og_voice_actors :: "(pyval option \<times> pyval option) \<times> error option"
  og_staff :: "error + pyval"

section \<open>The field handlers\<close>

text \<open>
  \<open>try: body  except: if not self.session.suppress_parse_exceptions: raise\<close> around
  a body that writes the key \<open>key\<close>: what the body stored stays in the dictionary; its
  exception is re-raised unless the session suppresses parse exceptions.
\<close>

definition try_field :: "bool \<Rightarrow> string \<Rightarrow> block_out \<Rightarrow> info \<Rightarrow> error + info" where
  "try_field suppress key out media_info =
     (let media_info' = (case fst out of None \<Rightarrow> media_info | Some v \<Rightarrow> media_info(key \<mapsto> v))
      in case snd out of
           None \<Rightarrow> Inr media_info'
         | Some e \<Rightarrow> if \<not> suppress then Inl e else Inr media_info')"

text \<open>Such statements one after the other.\<close>

fun try_fields :: "bool \<Rightarrow> (string \<times> block_out) list \<Rightarrow> info \<Rightarrow> error + info" where
  "try_fields suppress [] media_info = Inr media_info"
| "try_fields suppress ((key, out) # rest) media_info =
     (case try_field suppress key out media_info of
        Inl e \<Rightarrow> Inl e
      | Inr media_info' \<Rightarrow> try_fields suppress rest media_info')"

text \<open>
  What a sequence of handlers leaves when no exception gets out: every value stored, in
  order. And the first exception a sequence raises, if any.
\<close>

fun store_all :: "(string \<times> block_out) list \<Rightarrow> info \<Rightarrow> info" where
  "store_all [] media_info = media_info"
| "store_all ((key, out) # rest) media_info =
     store_all rest (case fst out of None \<Rightarrow> media_info | Some v \<Rightarrow> media_info(key \<mapsto> v))"

fun first_raised :: "(string \<times> block_out) list \<Rightarrow> error option" where
  "first_raised [] = None"
| "first_raised ((key, out) # rest) =
     (case snd out of None \<Rightarrow> first_raised rest | Some e \<Rightarrow> Some e)"

section \<open>Media.parse_sidebar\<close>

text \<open>A local variable that an aborted body may have left unassigned.\<close>

datatype 'a binding = Unbound | Bound 'a

text \<open>media.py 151-157: the binding of \<open>title_tag\<close> afterwards, and the exception.\<close>

definition title_tag_body :: "page \<Rightarrow> orig option \<Rightarrow> tag option binding \<times> error option" where
  "title_tag_body media_page media_page_original =
     (case pg_h1 media_page of
        None \<Rightarrow> (Unbound, Some AttributeError)
      | Some None \<Rightarrow> (Bound None, Some AttributeError)
      | Some (Some t) \<Rightarrow>
          if has_div t then (Bound (Some t), None)
          else (case media_page_original of
                  None \<Rightarrow> (Bound (Some t), Some AttributeError)
                | Some mo \<Rightarrow>
                    (case og_h1_span mo of
                       [] \<Rightarrow> (Bound (Some t),
                                Some (MalformedMediaPageError ''Could not find title div''))
                     | x # _ \<Rightarrow> (Bound (Some x), None))))"

text \<open>media.py 163-166.\<close>

definition title_body :: "tag option binding \<Rightarrow> orig option \<Rightarrow> block_out" where
  "title_body title_tag media_page_original =
     (case title_tag of
        Unbound \<Rightarrow> (None, Some UnboundLocalError)
      | Bound None \<Rightarrow> (None, Some AttributeError)
      | Bound (Some t) \<Rightarrow>
          (let title = py_strip (own_text t)
           in if title = [] then
                (case media_page_original of
                   None \<Rightarrow> (Some (PUnicode title), Some AttributeError)
                 | Some mo \<Rightarrow>
                     (case og_name_span mo of
                        None \<Rightarrow> (Some (PUnicode title), Some AttributeError)
                      | Some s \<Rightarrow> (Some (PUnicode s), None)))
              else (Some (PUnicode title), None)))"

text \<open>
  media.py 173-174. \<open>.decode('utf-8')\<close> on a \<open>unicode\<close> object first encodes it as
  ASCII, which fails on a code unit of 128 or more.
\<close>

definition picture_body :: "info_panel \<Rightarrow> block_out" where
  "picture_body info_panel_first =
     (case ip_img info_panel_first of
        None \<Rightarrow> (None, Some AttributeError)
      | Some None \<Rightarrow> (None, Some AttributeError)
      | Some (Some src) \<Rightarrow>
          if list_all (\<lambda>c. (of_char c :: nat) < 128) src then (Some (PUnicode src), None)
          else (None, Some UnicodeEncodeError))"

text \<open>media.py 185-194: the loop over the language nodes.\<close>

fun alt_titles_loop :: "alt_node list \<Rightarrow> (pyval \<times> pyval) list \<Rightarrow> (pyval \<times> pyval) list" where
  "alt_titles_loop [] d = d"
| "alt_titles_loop (next_tag # later) d =
     (if \<not> an_is_language next_tag then d
      else alt_titles_loop later
             (dict_set (PUnicode (butlast (an_span_text next_tag)))
                (PList (map PUnicode (split_str '', '' (py_strip (an_rest_text next_tag))))) d))"

text \<open>media.py 181-194.\<close>

definition alt_titles_body :: "info_panel \<Rightarrow> block_out" where
  "alt_titles_body info_panel_first =
     (case ip_alt_titles info_panel_first of
        None \<Rightarrow> (Some (PDict []), None)
      | Some nodes \<Rightarrow> (Some (PDict (alt_titles_loop nodes [])), None))"

text \<open>media.py 200-206.\<close>

definition type_body :: "info_panel \<Rightarrow> block_out" where
  "type_body info_panel_first =
     (case ip_type info_panel_first of
        Some t \<Rightarrow> (Some (PUnicode (py_strip t)), None)
      | None \<Rightarrow>
          (case ip_type_divs info_panel_first of
             [] \<Rightarrow> (None, Some IndexError)
           | x # _ \<Rightarrow> (Some (PUnicode (py_strip (last (split_chr CHR '':'' x)))), None)))"

text \<open>media.py 212-213.\<close>

definition status_body :: "page \<Rightarrow> block_out" where
  "status_body media_page =
     (case pg_status media_page of
        [] \<Rightarrow> (None, Some IndexError)
      | t # _ \<Rightarrow>
          (case py_index (split_chr CHR '':'' t) 1 of
             Inl e \<Rightarrow> (None, Some e)
           | Inr s \<Rightarrow> (Some (PUnicode (py_strip s)), None)))"

text \<open>media.py 226-243.\<close>

definition score_body :: "page \<Rightarrow> orig \<Rightarrow> block_out" where
  "score_body media_page media_page_original =
     (let score_tag = (case pg_rating_span media_page of
                         None \<Rightarrow> pg_rating_div media_page
                       | Some r \<Rightarrow> Some r)
      in case score_tag of
           None \<Rightarrow> (None, Some AttributeError)
         | Some r \<Rightarrow>
             (case rt_count r of
                None \<Rightarrow> (None, Some AttributeError)
              | Some ct \<Rightarrow>
                  (case py_int (remove_commas ct) of
                     Inl e \<Rightarrow> (None, Some e)
                   | Inr num_users \<Rightarrow>
                       (case rt_value r of
                          None \<Rightarrow> (None, Some AttributeError)
                        | Some (Some d) \<Rightarrow> (Some (PTuple [d, PInt num_users]), None)
                        | Some None \<Rightarrow>
                            (case og_rating_value media_page_original of
                               None \<Rightarrow> (None, Some AttributeError)
                             | Some None \<Rightarrow> (None, Some InvalidOperation)
                             | Some (Some d) \<Rightarrow> (Some (PTuple [d, PInt num_users]), None))))))"

text \<open>\<open>media_info[key] = int(text)\<close>.\<close>

definition int_out :: "string \<Rightarrow> block_out" where
  "int_out text = (case py_int text of Inl e \<Rightarrow> (None, Some e) | Inr n \<Rightarrow> (Some (PInt n), None))"

text \<open>media.py 249-255.\<close>

definition rank_body :: "info_panel \<Rightarrow> orig \<Rightarrow> block_out" where
  "rank_body info_panel_first media_page_original =
     (case ip_ranked info_panel_first of
        Some t \<Rightarrow> int_out (remove_commas (drop 1 (py_strip t)))
      | None \<Rightarrow>
          (case og_ranked media_page_original of
             [] \<Rightarrow> (None, Some IndexError)
           | t # _ \<Rightarrow> int_out (py_strip (last (split_chr CHR ''#'' t)))))"

text \<open>media.py 262-269.\<close>

definition popularity_body :: "info_panel \<Rightarrow> orig \<Rightarrow> block_out" where
  "popularity_body info_panel_first media_page_original =
     (case ip_popularity info_panel_first of
        Some t \<Rightarrow> int_out (remove_commas (drop 1 (py_strip t)))
      | None \<Rightarrow>
          (case og_popularity media_page_original of
             [] \<Rightarrow> (None, Some IndexError)
           | t # _ \<Rightarrow> int_out (py_strip (last (split_chr CHR ''#'' t)))))"

text \<open>media.py 275-282.\<close>

definition members_body :: "info_panel \<Rightarrow> orig \<Rightarrow> block_out" where
  "members_body info_panel_first media_page_original =
     (case ip_members info_panel_first of
        Some t \<Rightarrow> int_out (remove_commas (py_strip t))
      | None \<Rightarrow>
          (case og_members media_page_original of
             [] \<Rightarrow> (None, Some IndexError)
           | t # _ \<Rightarrow> int_out (remove_commas (py_strip (last (split_chr CHR '':'' t))))))"

text \<open>media.py 289-296.\<close>

definition favorites_body :: "info_panel \<Rightarrow> orig \<Rightarrow> block_out" where
  "favorites_body info_panel_first media_page_original =
     (case ip_favorites info_panel_first of
        Some t \<Rightarrow> int_out (remove_commas (py_strip t))
      | None \<Rightarrow>
          (case og_favorites media_page_original of
             [] \<Rightarrow> (None, Some IndexError)
           | t # _ \<Rightarrow> int_out (remove_commas (py_strip (last (split_chr CHR '':'' t))))))"

text \<open>The handlers of media.py 172-326, in order, with their keys.\<close>

definition panel_fields :: "page \<Rightarrow> orig \<Rightarrow> info_panel \<Rightarrow> (string \<times> block_out) list" where
  "panel_fields media_page media_page_original info_panel_first =
     [(''picture'', picture_body info_panel_first),
      (''alternative_titles'', alt_titles_body info_panel_first),
      (''type'', type_body info_panel_first),
      (''status'', status_body media_page),
      (''genres'', of_result (og_genres media_page_original)),
      (''score'', score_body media_page media_page_original),
      (''rank'', rank_body info_panel_first media_page_original),
      (''popularity'', popularity_body info_panel_first media_page_original),
      (''members'', members_body info_panel_first media_page_original),
      (''favorites'', favorites_body info_panel_first media_page_original),
      (''popular_tags'', pg_popular_tags media_page)]"

text \<open>
  \<open>Media.parse_sidebar\<close> (media.py 131-328). The not-found check (146-148) and the
  info-panel lookup (171) stand outside every handler.
\<close>

definition Media_parse_sidebar :: "resource \<Rightarrow> page \<Rightarrow> orig option \<Rightarrow> error + info" where
  "Media_parse_sidebar self media_page media_page_original =
     (let suppress = suppress_parse_exceptions (sess self)
      in if pg_badresult media_page then Inl (InvalidMediaError (ident self))
         else case title_tag_body media_page media_page_original of
           (title_tag, raised) \<Rightarrow>
             (case (if suppress then None else raised) of
                Some e \<Rightarrow> Inl e
              | None \<Rightarrow>
                  (case try_field suppress ''title'' (title_body title_tag media_page_original) Map.empty of
                     Inl e \<Rightarrow> Inl e
                   | Inr media_info \<Rightarrow>
                       (case media_page_original of
                          None \<Rightarrow> Inl AttributeError
                        | Some mo \<Rightarrow>
                            (case og_info_panel mo of
                               [] \<Rightarrow> Inl IndexError
                             | info_panel_first # _ \<Rightarrow>
                                 try_fields suppress (panel_fields media_page mo info_panel_first)
                                   media_info)))))"

text \<open>
  All the handlers of \<open>Media.parse_sidebar\<close> on a page whose original document is
  \<open>d\<close> and whose info panel is found: the title tag (which stores nothing), the title,
  and the handlers on the panel.
\<close>

definition sidebar_handlers :: "page \<Rightarrow> orig \<Rightarrow> info_panel \<Rightarrow> (string \<times> block_out) list" where
  "sidebar_handlers media_page d info_panel_first =
     (''title'', (None, snd (title_tag_body media_page (Some d))))
     # (''title'', title_body (fst (title_tag_body media_page (Some d))) (Some d))
     # panel_fields media_page d info_panel_first"

section \<open>Anime.parse_sidebar and Manga.parse_sidebar\<close>

text \<open>
  \<open>utilities.parse_profile_date\<close> is not under src/: it is a parameter \<open>ppd\<close>, given the
  text and the \<open>suppress\<close> keyword argument when the caller passes one.

  \<open>try: d = parse_profile_date(...)  except ValueError: raise Malformed...(message)\<close>.
\<close>

definition date_or_malformed ::
  "(string \<Rightarrow> bool option \<Rightarrow> error + pyval) \<Rightarrow> string \<Rightarrow> bool option \<Rightarrow> error \<Rightarrow> error + pyval" where
  "date_or_malformed ppd text kw malformed =
     (case ppd text kw of
        Inl e \<Rightarrow> if e = ValueError then Inl malformed else Inl e
      | Inr d \<Rightarrow> Inr d)"

text \<open>anime.py 99-105: the exception, if any.\<close>

definition anime_title_check :: "page \<Rightarrow> error option" where
  "anime_title_check anime_page =
     (case pg_h1 anime_page of
        None \<Rightarrow> Some AttributeError
      | Some None \<Rightarrow> Some AttributeError
      | Some (Some t) \<Rightarrow>
          if has_div t then None
          else (case pg_h1_span anime_page of
                  [] \<Rightarrow> Some (MalformedAnimePageError ''Could not find title div'')
                | x # _ \<Rightarrow> None))"

text \<open>anime.py 111-112.\<close>

definition episodes_body :: "orig option \<Rightarrow> block_out" where
  "episodes_body anime_page_original =
     (case anime_page_original of
        None \<Rightarrow> (None, Some AttributeError)
      | Some mo \<Rightarrow>
          (case og_episodes mo of
             [] \<Rightarrow> (None, Some IndexError)
           | t # _ \<Rightarrow>
               if py_strip t \<noteq> ''Unknown'' then int_out (py_strip (last (split_chr CHR '':'' t)))
               else (Some (PInt 0), None)))"

text \<open>anime.py 118-143.\<close>

definition aired_body ::
  "(string \<Rightarrow> bool option \<Rightarrow> error + pyval) \<Rightarrow> bool \<Rightarrow> orig option \<Rightarrow> block_out" where
  "aired_body ppd suppress anime_page_original =
     (case anime_page_original of
        None \<Rightarrow> (None, Some AttributeError)
      | Some mo \<Rightarrow>
          (case og_aired mo of
             [] \<Rightarrow> (None, Some IndexError)
           | t # _ \<Rightarrow>
               (case py_index (split_chr CHR '':'' t) 1 of
                  Inl e \<Rightarrow> (None, Some e)
                | Inr aired_tag_text \<Rightarrow>
                    (let aired_parts = split_str '' to '' (py_strip aired_tag_text)
                     in if length aired_parts = 1 then
                          (case date_or_malformed ppd (aired_parts ! 0) (Some suppress)
                                  (MalformedAnimePageError ''Could not parse single air date'') of
                             Inl e \<Rightarrow> (None, Some e)
                           | Inr aired_date \<Rightarrow> (Some (PTuple [aired_date]), None))
                        else
                          (case date_or_malformed ppd (aired_parts ! 0) (Some suppress)
                                  (MalformedAnimePageError ''Could not parse first of two air dates'') of
                             Inl e \<Rightarrow> (None, Some e)
                           | Inr air_start \<Rightarrow>
                               (case date_or_malformed ppd (aired_parts ! 1) (Some suppress)
                                       (MalformedAnimePageError
                                          ''Could not parse second of two air dates'') of
                                  Inl e \<Rightarrow> (None, Some e)
                                | Inr air_end \<Rightarrow> (Some (PTuple [air_start, air_end]), None)))))))"

text \<open>anime.py 173-175.\<close>

definition rating_body :: "orig option \<Rightarrow> block_out" where
  "rating_body anime_page_original =
     (case anime_page_original of
        None \<Rightarrow> (None, Some AttributeError)
      | Some mo \<Rightarrow>
          (case og_rating mo of
             [] \<Rightarrow> (None, Some IndexError)
           | t # _ \<Rightarrow> (Some (PUnicode (py_strip t)), None)))"

text \<open>anime.py 154-167, through the field that stands for it.\<close>

definition duration_body :: "orig option \<Rightarrow> block_out" where
  "duration_body anime_page_original =
     (case anime_page_original of
        None \<Rightarrow> (None, Some AttributeError)
      | Some mo \<Rightarrow> og_duration mo)"

text \<open>
  \<open>Anime.parse_sidebar\<close> (anime.py 80-180). The not-found check, the title check
  (99-105) and the cell lookup (108) stand outside every handler.
\<close>

definition Anime_parse_sidebar ::
  "(string \<Rightarrow> bool option \<Rightarrow> error + pyval) \<Rightarrow> resource \<Rightarrow> page \<Rightarrow> orig option \<Rightarrow> error + info" where
  "Anime_parse_sidebar ppd self anime_page anime_page_original =
     (let suppress = suppress_parse_exceptions (sess self)
      in if pg_badresult anime_page then Inl (InvalidAnimeError (ident self))
         else case anime_title_check anime_page of
           Some e \<Rightarrow> Inl e
         | None \<Rightarrow>
             (case Media_parse_sidebar self anime_page anime_page_original of
                Inl e \<Rightarrow> Inl e
              | Inr anime_info \<Rightarrow>
                  (case pg_content_td anime_page of
                     None \<Rightarrow> Inl AttributeError
                   | Some info_panel_first \<Rightarrow>
                       try_fields suppress
                         [(''episodes'', episodes_body anime_page_original),
                          (''aired'', aired_body ppd suppress anime_page_original),
                          (''producers'', of_result (pg_producers anime_page)),
                          (''duration'', duration_body anime_page_original),
                          (''rating'', rating_body anime_page_original)]
                         anime_info)))"

text \<open>manga.py 93-96: the exception, if any.\<close>

definition manga_title_check :: "page \<Rightarrow> error option" where
  "manga_title_check manga_page =
     (if \<not> pg_name_span manga_page then Some (MalformedMangaPageError ''Could not find title'')
      else None)"

text \<open>manga.py 107-109 and 115-117: \<open>int(text)\<close>, or \<open>None\<close> for \<open>'Unknown'\<close>.\<close>

definition count_body :: "string option \<Rightarrow> block_out" where
  "count_body found =
     (case found of
        None \<Rightarrow> (None, Some AttributeError)
      | Some t \<Rightarrow> if py_strip t \<noteq> ''Unknown'' then int_out (py_strip t) else (Some PNone, None))"

text \<open>
  manga.py 123-150. The guard of line 141 compares the list \<open>published_parts\<close> with the
  string \<open>u'?'\<close>.
\<close>

definition published_body ::
  "(string \<Rightarrow> bool option \<Rightarrow> error + pyval) \<Rightarrow> string option \<Rightarrow> block_out" where
  "published_body ppd found =
     (case found of
        None \<Rightarrow> (None, Some AttributeError)
      | Some t \<Rightarrow>
          (let published_parts = split_str '' to '' (py_strip t)
           in if length published_parts = 1 then
                (case date_or_malformed ppd (published_parts ! 0) None
                        (MalformedMangaPageError ''Could not parse single publish date'') of
                   Inl e \<Rightarrow> (None, Some e)
                 | Inr published_date \<Rightarrow> (Some (PTuple [published_date]), None))
              else
                (case date_or_malformed ppd (published_parts ! 0) None
                        (MalformedMangaPageError ''Could not parse first of two publish dates'') of
                   Inl e \<Rightarrow> (None, Some e)
                 | Inr publish_start \<Rightarrow>
                     if PList (map PUnicode published_parts) = PUnicode ''?''
                     then (Some (PTuple [publish_start, PNone]), None)
                     else
                       (case date_or_malformed ppd (published_parts ! 1) None
                               (MalformedMangaPageError
                                  ''Could not parse second of two publish dates'') of
                          Inl e \<Rightarrow> (None, Some e)
                        | Inr publish_end \<Rightarrow>
                            (Some (PTuple [publish_start, publish_end]), None)))))"

text \<open>The handlers of manga.py 106-173 on the cell, which may be \<open>None\<close>.\<close>

definition manga_fields ::
  "(string \<Rightarrow> bool option \<Rightarrow> error + pyval) \<Rightarrow> page \<Rightarrow> manga_panel option
     \<Rightarrow> (string \<times> block_out) list" where
  "manga_fields ppd manga_page info_panel_first =
     [(''volumes'', count_body (case info_panel_first of None \<Rightarrow> None | Some p \<Rightarrow> mp_volumes p)),
      (''chapters'', count_body (case info_panel_first of None \<Rightarrow> None | Some p \<Rightarrow> mp_chapters p)),
      (''published'',
         published_body ppd (case info_panel_first of None \<Rightarrow> None | Some p \<Rightarrow> mp_published p)),
      (''authors'',
         (case info_panel_first of None \<Rightarrow> (None, Some AttributeError) | Some p \<Rightarrow> mp_authors p)),
      (''serialization'', of_result (pg_serialization manga_page))]"

text \<open>
  \<open>Manga.parse_sidebar\<close> (manga.py 73-175). The title check has a handler of its own
  and stores nothing; the cell lookup (104) stands outside every handler.
\<close>

definition Manga_parse_sidebar ::
  "(string \<Rightarrow> bool option \<Rightarrow> error + pyval) \<Rightarrow> resource \<Rightarrow> page \<Rightarrow> orig option \<Rightarrow> error + info" where
  "Manga_parse_sidebar ppd self manga_page manga_page_original =
     (let suppress = suppress_parse_exceptions (sess self)
      in if pg_badresult manga_page then Inl (InvalidMangaError (ident self))
         else case (if suppress then None else manga_title_check manga_page) of
           Some e \<Rightarrow> Inl e
         | None \<Rightarrow>
             (case Media_parse_sidebar self manga_page manga_page_original of
                Inl e \<Rightarrow> Inl e
              | Inr manga_info \<Rightarrow>
                  (case pg_content_td manga_page of
                     None \<Rightarrow> Inl AttributeError
                   | Some info_panel_first \<Rightarrow>
                       try_fields suppress (manga_fields ppd manga_page info_panel_first)
                         manga_info)))"

section \<open>Media.parse, parse_stats and parse_characters\<close>

text \<open>\<open>self.parse_sidebar(...)\<close>: the method of the object's class.\<close>

definition parse_sidebar ::
  "(string \<Rightarrow> bool option \<Rightarrow> error + pyval) \<Rightarrow> resource \<Rightarrow> page \<Rightarrow> orig option \<Rightarrow> error + info" where
  "parse_sidebar ppd self media_page media_page_original =
     (if cls self = Anime then Anime_parse_sidebar ppd self media_page media_page_original
      else if cls self = Manga then Manga_parse_sidebar ppd self media_page media_page_original
      else Media_parse_sidebar self media_page media_page_original)"

text \<open>\<open>Media.parse\<close> (media.py 408-478).\<close>

definition Media_parse ::
  "(string \<Rightarrow> bool option \<Rightarrow> error + pyval) \<Rightarrow> resource \<Rightarrow> page \<Rightarrow> orig option \<Rightarrow> error + info" where
  "Media_parse ppd self media_page media_page_original =
     (case parse_sidebar ppd self media_page media_page_original of
        Inl e \<Rightarrow> Inl e
      | Inr media_info \<Rightarrow>
          try_fields (suppress_parse_exceptions (sess self))
            [(''synopsis'', of_result (pg_synopsis media_page)),
             (''related'', pg_related media_page)]
            media_info)"

text \<open>\<open>s.replace(old, '')\<close> for a non-empty \<open>old\<close>.\<close>

definition remove_str :: "string \<Rightarrow> string \<Rightarrow> string" where
  "remove_str old s = concat (split_str old s)"

text \<open>
  media.py 500-502 and the four bodies after it: the span with the given text, and the
  count next to it. The number assigned, if any, and the exception, if any.
\<close>

definition stat_body :: "page \<Rightarrow> string \<Rightarrow> int option \<times> error option" where
  "stat_body media_page label =
     (case pg_stat_spans media_page label of
        None \<Rightarrow> (None, None)
      | Some NoSibling \<Rightarrow> (None, Some AttributeError)
      | Some TagSibling \<Rightarrow> (None, Some TypeError)
      | Some (TextSibling t) \<Rightarrow>
          (case py_int (remove_commas (py_strip t)) of
             Inl e \<Rightarrow> (None, Some e)
           | Inr n \<Rightarrow> (Some n, None)))"

text \<open>The five handlers of media.py 499-539 on the local dictionary \<open>status_stats\<close>.\<close>

fun stats_handlers ::
  "bool \<Rightarrow> page \<Rightarrow> (string \<times> string) list \<Rightarrow> (pyval \<times> pyval) list
     \<Rightarrow> error + (pyval \<times> pyval) list" where
  "stats_handlers suppress media_page [] status_stats = Inr status_stats"
| "stats_handlers suppress media_page ((key, label) # rest) status_stats =
     (case stat_body media_page label of
        (assigned, raised) \<Rightarrow>
          (let status_stats' = (case assigned of
                                  None \<Rightarrow> status_stats
                                | Some n \<Rightarrow> dict_set (PUnicode key) (PInt n) status_stats)
           in case raised of
                None \<Rightarrow> stats_handlers suppress media_page rest status_stats'
              | Some e \<Rightarrow>
                  if \<not> suppress then Inl e
                  else stats_handlers suppress media_page rest status_stats'))"

text \<open>media.py 562-565: the rows of the score table.\<close>

fun score_rows_loop ::
  "(string option \<times> string option) list \<Rightarrow> (pyval \<times> pyval) list
     \<Rightarrow> (pyval \<times> pyval) list \<times> error option" where
  "score_rows_loop [] score_stats = (score_stats, None)"
| "score_rows_loop ((td, small) # rest) score_stats =
     (case td of
        None \<Rightarrow> (score_stats, Some AttributeError)
      | Some t \<Rightarrow>
          (case py_int t of
             Inl e \<Rightarrow> (score_stats, Some e)
           | Inr score_value \<Rightarrow>
               (case small of
                  None \<Rightarrow> (score_stats, Some AttributeError)
                | Some sm \<Rightarrow>
                    (case py_int (remove_str '' votes)'' (remove_str ''(u'' sm)) of
                       Inl e \<Rightarrow> (score_stats, Some e)
                     | Inr votes \<Rightarrow>
                         score_rows_loop rest
                           (dict_set (PInt score_value) (PInt votes) score_stats)))))"

definition default_score_stats :: "(pyval \<times> pyval) list" where
  "default_score_stats = map (\<lambda>k. (PInt k, PInt 0)) [1, 2, 3, 4, 5, 6, 7, 8, 9, 10]"

text \<open>
  \<open>Media.parse_stats\<close> (media.py 480-572). \<open>self.consuming_verb\<close> is a parameter: the
  classes under src/ define \<open>_consuming_verb\<close> only. The sidebar is parsed with
  \<open>media_page_original\<close> left at its default, \<open>None\<close>.
\<close>

definition Media_parse_stats ::
  "(string \<Rightarrow> bool option \<Rightarrow> error + pyval) \<Rightarrow> string \<Rightarrow> resource \<Rightarrow> page \<Rightarrow> error + info" where
  "Media_parse_stats ppd consuming_verb self media_page =
     (let suppress = suppress_parse_exceptions (sess self)
      in case parse_sidebar ppd self media_page None of
           Inl e \<Rightarrow> Inl e
         | Inr media_info \<Rightarrow>
             (let verb_progressive = consuming_verb @ ''ing''
              in case stats_handlers suppress media_page
                        [(verb_progressive, capitalize verb_progressive),
                         (''completed'', ''Completed:''),
                         (''on_hold'', ''On-Hold:''),
                         (''dropped'', ''Dropped:''),
                         (''plan_to_'' @ consuming_verb,
                            ''Plan to '' @ capitalize consuming_verb @ '':'')]
                        (map (\<lambda>k. (PUnicode k, PInt 0))
                           [verb_progressive, ''completed'', ''on_hold'', ''dropped'',
                            ''plan_to_'' @ consuming_verb]) of
                   Inl e \<Rightarrow> Inl e
                 | Inr status_stats \<Rightarrow>
                     (case (case pg_score_rows media_page of
                              None \<Rightarrow> (default_score_stats, None)
                            | Some score_rows \<Rightarrow> score_rows_loop score_rows []) of
                        (score_stats, raised) \<Rightarrow>
                          (case (if suppress then None else raised) of
                             Some e \<Rightarrow> Inl e
                           | None \<Rightarrow>
                               Inr (media_info(''status_stats'' \<mapsto> PDict status_stats,
                                               ''score_stats'' \<mapsto> PDict score_stats))))))"

text \<open>\<open>Media.parse_characters\<close> (media.py 574-627).\<close>

definition Media_parse_characters ::
  "(string \<Rightarrow> bool option \<Rightarrow> error + pyval) \<Rightarrow> resource \<Rightarrow> page \<Rightarrow> orig option \<Rightarrow> error + info" where
  "Media_parse_characters ppd self character_page character_page_original =
     (case parse_sidebar ppd self character_page character_page_original of
        Inl e \<Rightarrow> Inl e
      | Inr media_info \<Rightarrow>
          try_field (suppress_parse_exceptions (sess self)) ''characters''
            (pg_characters character_page) media_info)"

text \<open>
  \<open>Anime.parse_characters\<close> (anime.py 214-281): one handler stores the characters and
  the voice actors, the next the staff.
\<close>

definition Anime_parse_characters ::
  "(string \<Rightarrow> bool option \<Rightarrow> error + pyval) \<Rightarrow> resource \<Rightarrow> page \<Rightarrow> orig option \<Rightarrow> error + info" where
  "Anime_parse_characters ppd self character_page character_page_original =
     (let suppress = suppress_parse_exceptions (sess self)
      in case parse_sidebar ppd self character_page character_page_original of
           Inl e \<Rightarrow> Inl e
         | Inr anime_info \<Rightarrow>
             (case (case character_page_original of
                      None \<Rightarrow> ((None, None), Some AttributeError)
                    | Some mo \<Rightarrow> og_voice_actors mo) of
                ((characters, voice_actors), raised) \<Rightarrow>
                  (case try_field suppress ''characters'' (characters, raised) anime_info of
                     Inl e \<Rightarrow> Inl e
                   | Inr anime_info1 \<Rightarrow>
                       (case try_field suppress ''voice_actors'' (voice_actors, None) anime_info1 of
                          Inl e \<Rightarrow> Inl e
                        | Inr anime_info2 \<Rightarrow>
                            try_field suppress ''staff''
                              (case character_page_original of
                                 None \<Rightarrow> (None, Some AttributeError)
                               | Some mo \<Rightarrow> of_result (og_staff mo))
                              anime_info2))))"

section \<open>The base class: cache, equality and lazy loading\<close>

text \<open>
  Modelled from the spec: \<open>Base.set\<close> (base.py is not under src/) merges a field
  mapping into the object's cache: the value of field \<open>f\<close> goes to the slot \<open>_f\<close>, and
  nothing else of the object changes.
\<close>

definition Base_set :: "resource \<Rightarrow> info \<Rightarrow> resource" where
  "Base_set self attr_dict =
     self\<lparr>slots := (\<lambda>name. case name of
                          [] \<Rightarrow> slots self name
                        | c # f \<Rightarrow>
                            if c = CHR ''_'' then
                              (case attr_dict f of Some v \<Rightarrow> Some v | None \<Rightarrow> slots self name)
                            else slots self name)\<rparr>"

text \<open>
  Modelled from the spec: \<open>Base.__eq__\<close> and \<open>Base.__hash__\<close> (base.py is not under
  src/). Two handles are equal when they have the same concrete type and the same
  identity; the hash is computed from the type and the identity, and is represented by
  that pair.
\<close>

definition Base_eq :: "resource \<Rightarrow> resource \<Rightarrow> bool" where
  "Base_eq a b = (cls a = cls b \<and> ident a = ident b)"

definition Base_hash :: "resource \<Rightarrow> rclass \<times> pyval" where
  "Base_hash a = (cls a, ident a)"

text \<open>
  Modelled from the spec: the \<open>loadable\<close> wrapper (base.py is not under src/). On a read
  of attribute \<open>attr\<close>, if the slot \<open>_attr\<close> is unset (\<open>None\<close>) the named fetch routine
  is invoked, once, and then the slot is returned. A fetch routine takes the object and
  the network and returns the exception it raised, if any, the object and the network
  afterwards; the routines under src/ merge the mapping they parsed themselves
  (\<open>self.set(self.parse(...))\<close>).
\<close>

definition loadable ::
  "(resource \<Rightarrow> world \<Rightarrow> error option \<times> resource \<times> world) \<Rightarrow> string \<Rightarrow> resource \<Rightarrow> world
     \<Rightarrow> (error + pyval) \<times> resource \<times> world" where
  "loadable fetch attr self w =
     (case slots self (CHR ''_'' # attr) of
        None \<Rightarrow> (Inl AttributeError, self, w)
      | Some v \<Rightarrow>
          if v = PNone then
            (case fetch self w of
               (Some e, self', w') \<Rightarrow> (Inl e, self', w')
             | (None, self', w') \<Rightarrow>
                 (case slots self' (CHR ''_'' # attr) of
                    None \<Rightarrow> (Inl AttributeError, self', w')
                  | Some v' \<Rightarrow> (Inr v', self', w')))
          else (Inr v, self, w))"

section \<open>The fetch routines of Media\<close>

text \<open>
  \<open>self.session.session.get(url).text\<close>: the remote site answers a request with a
  document, given here as the two documents the routines make of it (cleaned and as
  downloaded); the request is logged.
\<close>

definition http_get :: "(request \<Rightarrow> 'a) \<Rightarrow> request \<Rightarrow> world \<Rightarrow> 'a \<times> world" where
  "http_get site rq w = (site rq, w\<lparr>requests := requests w @ [rq]\<rparr>)"

text \<open>\<open>Media.load\<close> (media.py 629-640).\<close>

definition Media_load ::
  "(string \<Rightarrow> bool option \<Rightarrow> error + pyval) \<Rightarrow> (request \<Rightarrow> page \<times> orig) \<Rightarrow> resource \<Rightarrow> world
     \<Rightarrow> error option \<times> resource \<times> world" where
  "Media_load ppd site self w =
     (case http_get site (MainPage (cls self) (ident self)) w of
        ((media_page, media_page_original), w') \<Rightarrow>
          (case Media_parse ppd self media_page (Some media_page_original) of
             Inl e \<Rightarrow> (Some e, self, w')
           | Inr media_info \<Rightarrow> (None, Base_set self media_info, w')))"

text \<open>
  \<open>Media.load_stats\<close> (media.py 642-652). The URL needs \<open>self.title\<close>, a loadable
  attribute backed by \<open>load\<close>; \<open>utilities.urlencode\<close> is not under src/ and is a
  parameter.
\<close>

definition Media_load_stats ::
  "(string \<Rightarrow> bool option \<Rightarrow> error + pyval) \<Rightarrow> (pyval \<Rightarrow> error + string) \<Rightarrow> string
     \<Rightarrow> (request \<Rightarrow> page \<times> orig) \<Rightarrow> resource \<Rightarrow> world \<Rightarrow> error option \<times> resource \<times> world" where
  "Media_load_stats ppd urlencode consuming_verb site self w =
     (case loadable (Media_load ppd site) ''title'' self w of
        (Inl e, self1, w1) \<Rightarrow> (Some e, self1, w1)
      | (Inr title, self1, w1) \<Rightarrow>
          (case urlencode title of
             Inl e \<Rightarrow> (Some e, self1, w1)
           | Inr t \<Rightarrow>
               (case http_get site (StatsPage (cls self1) (ident self1) t) w1 of
                  ((stats_page, unused), w2) \<Rightarrow>
                    (case Media_parse_stats ppd consuming_verb self1 stats_page of
                       Inl e \<Rightarrow> (Some e, self1, w2)
                     | Inr media_info \<Rightarrow> (None, Base_set self1 media_info, w2)))))"

text \<open>
  \<open>Media.load_characters\<close> (media.py 654-666); \<open>self.parse_characters\<close> is the
  method of the object's class.
\<close>

definition Media_load_characters ::
  "(string \<Rightarrow> bool option \<Rightarrow> error + pyval) \<Rightarrow> (pyval \<Rightarrow> error + string)
     \<Rightarrow> (request \<Rightarrow> page \<times> orig) \<Rightarrow> resource \<Rightarrow> world \<Rightarrow> error option \<times> resource \<times> world" where
  "Media_load_characters ppd urlencode site self w =
     (case loadable (Media_load ppd site) ''title'' self w of
        (Inl e, self1, w1) \<Rightarrow> (Some e, self1, w1)
      | (Inr title, self1, w1) \<Rightarrow>
          (case urlencode title of
             Inl e \<Rightarrow> (Some e, self1, w1)
           | Inr t \<Rightarrow>
               (case http_get site (CharactersPage (cls self1) (ident self1) t) w1 of
                  ((characters_page, characters_page_original), w2) \<Rightarrow>
                    (case (if cls self1 = Anime
                           then Anime_parse_characters ppd self1 characters_page
                                  (Some characters_page_original)
                           else Media_parse_characters ppd self1 characters_page
                                  (Some characters_page_original)) of
                       Inl e \<Rightarrow> (Some e, self1, w2)
                     | Inr media_info \<Rightarrow> (None, Base_set self1 media_info, w2)))))"

section \<open>Media lists\<close>

text \<open>
  A row of the list export: for each element the parser looks for, its text, or
  \<open>None\<close> when \<open>find\<close> returns \<open>None\<close>. \<open>row_series_db_id\<close> is the element
  \<open>series_<type>db_id\<close>.
\<close>

record row =
  row_series_start :: "string option"
  row_series_end :: "string option"
  row_series_db_id :: "string option"
  row_series_title :: "string option"
  row_series_status :: "string option"
  row_series_image :: "string option"
  row_my_start_date :: "string option"
  row_my_finish_date :: "string option"
  row_my_status :: "string option"
  row_my_score :: "string option"
  row_my_last_updated :: "string option"

text \<open>
  A child of the stats element: a text node, or a tag with its name, its text and what
  \<open>decimal.Decimal\<close> makes of the text (\<open>None\<close> when it raises InvalidOperation).
\<close>

datatype child = TextChild | TagChild string string "pyval option"

text \<open>
  The export as \<open>parse\<close> reads it: the text handed in, whether the document has a
  \<open>myanimelist\<close> element and an \<open>error\<close> element, the children of its \<open>myinfo\<close>
  element if it has one, and its rows (\<open>find_all(self.type)\<close>).
\<close>

record list_doc =
  ld_xml :: pyval
  ld_myanimelist :: bool
  ld_error :: bool
  ld_myinfo :: "child list option"
  ld_rows :: "row list"

text \<open>
  What a media list needs beyond the base object: \<open>type\<close> and \<open>verb\<close> are abstract
  properties of \<open>MediaList\<close> (its subclasses are not under src/), \<open>status_terms\<close> is
  what \<open>getattr(self.session, self.type)(1).status_terms\<close> evaluates to (the classes
  under src/ define \<open>_status_terms\<close> only), \<open>parse_profile_date\<close> is the date parser of
  utilities and \<open>fromtimestamp\<close> is \<open>datetime.datetime.fromtimestamp\<close>.
\<close>

record list_env =
  list_type :: string
  list_verb :: string
  status_terms :: "error + string list"
  parse_profile_date :: "string \<Rightarrow> bool option \<Rightarrow> error + pyval"
  fromtimestamp :: "int \<Rightarrow> error + pyval"

text \<open>
  \<open>MediaList.user_status_terms\<close> (media_list.py 67-77). The verb is a byte string;
  adding it to a \<open>unicode\<close> literal decodes it as ASCII.
\<close>

definition user_status_terms :: "string \<Rightarrow> error + string list" where
  "user_status_terms v =
     (if list_all (\<lambda>c. (of_char c :: nat) < 128) v then
        Inr [''Unknown'', capitalize v @ ''ing'', ''Completed'', ''On-Hold'', ''Dropped'',
             ''Unknown'', ''Plan to '' @ capitalize v]
      else Inl UnicodeDecodeError)"

text \<open>
  Modelled from the spec: \<open>getattr(self.session, type)(id)\<close> (session.py is not under
  src/) is the session's factory of that name; it constructs the resource of the class.
\<close>

definition session_media :: "string \<Rightarrow> session \<Rightarrow> pyval \<Rightarrow> world \<Rightarrow> (error + resource) \<times> world" where
  "session_media type s i w =
     (if type = ''anime'' then Anime_init s i w
      else if type = ''manga'' then Manga_init s i w
      else (Inl AttributeError, w))"

text \<open>\<open>soup.find(name).text\<close>.\<close>

definition text_of :: "string option \<Rightarrow> error + string" where
  "text_of found = (case found of None \<Rightarrow> Inl AttributeError | Some t \<Rightarrow> Inr t)"

text \<open>\<open>int(soup.find(name).text)\<close>.\<close>

definition int_of :: "string option \<Rightarrow> error + int" where
  "int_of found = (case found of None \<Rightarrow> Inl AttributeError | Some t \<Rightarrow> py_int t)"

text \<open>
  \<open>try: d = utilities.parse_profile_date(soup.find(name).text)  except ValueError: d = None\<close>.
\<close>

definition date_or_none ::
  "(string \<Rightarrow> bool option \<Rightarrow> error + pyval) \<Rightarrow> string option \<Rightarrow> error + pyval" where
  "date_or_none ppd found =
     (case found of
        None \<Rightarrow> Inl AttributeError
      | Some t \<Rightarrow>
          (case ppd t None of
             Inl e \<Rightarrow> if e = ValueError then Inr PNone else Inl e
           | Inr d \<Rightarrow> Inr d))"

text \<open>
  \<open>MediaList.parse_entry_media_attributes\<close> (media_list.py 79-102): the id and the
  other attributes.
\<close>

definition parse_entry_media_attributes ::
  "list_env \<Rightarrow> resource \<Rightarrow> row \<Rightarrow> world \<Rightarrow> (error + int \<times> info) \<times> world" where
  "parse_entry_media_attributes env self soup w =
     (case date_or_none (parse_profile_date env) (row_series_start soup) of
        Inl e \<Rightarrow> (Inl e, w)
      | Inr start \<Rightarrow>
     (case date_or_none (parse_profile_date env) (row_series_end soup) of
        Inl e \<Rightarrow> (Inl e, w)
      | Inr end \<Rightarrow>
     (case session_media (list_type env) (sess self) (PInt 1) w of
        (Inl e, w') \<Rightarrow> (Inl e, w')
      | (Inr one, w') \<Rightarrow>
     (case status_terms env of
        Inl e \<Rightarrow> (Inl e, w')
      | Inr terms \<Rightarrow>
     (case int_of (row_series_db_id soup) of
        Inl e \<Rightarrow> (Inl e, w')
      | Inr media_id \<Rightarrow>
     (case text_of (row_series_title soup) of
        Inl e \<Rightarrow> (Inl e, w')
      | Inr title \<Rightarrow>
     (case int_of (row_series_status soup) of
        Inl e \<Rightarrow> (Inl e, w')
      | Inr code \<Rightarrow>
     (case py_index terms code of
        Inl e \<Rightarrow> (Inl e, w')
      | Inr status \<Rightarrow>
     (case text_of (row_series_image soup) of
        Inl e \<Rightarrow> (Inl e, w')
      | Inr picture \<Rightarrow>
          (Inr (media_id,
                [''title'' \<mapsto> PUnicode title, ''status'' \<mapsto> PUnicode status,
                 ''aired'' \<mapsto> PTuple [start, end], ''picture'' \<mapsto> PUnicode picture]),
           w'))))))))))"

text \<open>
  \<open>MediaList.parse_entry\<close> (media_list.py 104-135): the media object and the entry's
  own attributes.
\<close>

definition parse_entry ::
  "list_env \<Rightarrow> resource \<Rightarrow> row \<Rightarrow> world \<Rightarrow> (error + resource \<times> info) \<times> world" where
  "parse_entry env self soup w =
     (case parse_entry_media_attributes env self soup w of
        (Inl e, w1) \<Rightarrow> (Inl e, w1)
      | (Inr (media_id, media_attrs), w1) \<Rightarrow>
     (case session_media (list_type env) (sess self) (PInt media_id) w1 of
        (Inl e, w2) \<Rightarrow> (Inl e, w2)
      | (Inr created, w2) \<Rightarrow>
     (let media = Base_set created media_attrs
      in case date_or_none (parse_profile_date env) (row_my_start_date soup) of
        Inl e \<Rightarrow> (Inl e, w2)
      | Inr started \<Rightarrow>
     (case date_or_none (parse_profile_date env) (row_my_finish_date soup) of
        Inl e \<Rightarrow> (Inl e, w2)
      | Inr finished \<Rightarrow>
     (case user_status_terms (list_verb env) of
        Inl e \<Rightarrow> (Inl e, w2)
      | Inr terms \<Rightarrow>
     (case int_of (row_my_status soup) of
        Inl e \<Rightarrow> (Inl e, w2)
      | Inr code \<Rightarrow>
     (case py_index terms code of
        Inl e \<Rightarrow> (Inl e, w2)
      | Inr status \<Rightarrow>
     (case int_of (row_my_score soup) of
        Inl e \<Rightarrow> (Inl e, w2)
      | Inr score \<Rightarrow>
     (case int_of (row_my_last_updated soup) of
        Inl e \<Rightarrow> (Inl e, w2)
      | Inr stamp \<Rightarrow>
     (case fromtimestamp env stamp of
        Inl e \<Rightarrow> (Inl e, w2)
      | Inr last_updated \<Rightarrow>
          (Inr (media,
                [''started'' \<mapsto> started, ''finished'' \<mapsto> finished,
                 ''status'' \<mapsto> PUnicode status,
                 ''score'' \<mapsto> (if score = 0 then PNone else PInt score),
                 ''last_updated'' \<mapsto> last_updated]),
           w2)))))))))))"

text \<open>\<open>MediaList.parse_stats\<close> (media_list.py 137-163): the loop over the children.\<close>

fun list_stats_loop :: "string \<Rightarrow> child list \<Rightarrow> info \<Rightarrow> error + info" where
  "list_stats_loop v [] stats = Inr stats"
| "list_stats_loop v (TextChild # rest) stats = Inl AttributeError"
| "list_stats_loop v (TagChild name text dec # rest) stats =
     (let key = remove_str ''user_'' name
      in if key = ''id'' \<or> key = v @ ''ing'' \<or> key = ''completed'' \<or> key = ''dropped'' then
           (case py_int text of
              Inl e \<Rightarrow> Inl e
            | Inr n \<Rightarrow> list_stats_loop v rest (stats(key \<mapsto> PInt n)))
         else if key = ''name'' then list_stats_loop v rest (stats(key \<mapsto> PUnicode text))
         else if key = ''onhold'' then
           (case py_int text of
              Inl e \<Rightarrow> Inl e
            | Inr n \<Rightarrow> list_stats_loop v rest (stats(''on_hold'' \<mapsto> PInt n)))
         else if key = ''planto'' @ v then
           (case py_int text of
              Inl e \<Rightarrow> Inl e
            | Inr n \<Rightarrow> list_stats_loop v rest (stats(''plan_to_'' @ v \<mapsto> PInt n)))
         else if key = ''days_spent_watching'' then
           (case dec of
              None \<Rightarrow> Inl InvalidOperation
            | Some d \<Rightarrow> list_stats_loop v rest (stats(''days_spent'' \<mapsto> d)))
         else list_stats_loop v rest stats)"

text \<open>
  The loop of media_list.py 184-186: each row's media object and entry, the entry of a
  later row replacing that of an equal media object.
\<close>

fun list_set :: "resource \<Rightarrow> info \<Rightarrow> (resource \<times> info) list \<Rightarrow> (resource \<times> info) list" where
  "list_set media entry [] = [(media, entry)]"
| "list_set media entry ((m, e) # rest) =
     (if Base_eq m media then (m, entry) # rest else (m, e) # list_set media entry rest)"

fun rows_loop ::
  "list_env \<Rightarrow> resource \<Rightarrow> row list \<Rightarrow> (resource \<times> info) list \<Rightarrow> world
     \<Rightarrow> (error + (resource \<times> info) list) \<times> world" where
  "rows_loop env self [] entries w = (Inr entries, w)"
| "rows_loop env self (soup # rest) entries w =
     (case parse_entry env self soup w of
        (Inl e, w') \<Rightarrow> (Inl e, w')
      | (Inr (media, entry), w') \<Rightarrow> rows_loop env self rest (list_set media entry entries) w')"

text \<open>
  \<open>MediaList.parse\<close> (media_list.py 165-187): the stats and the list. Line 179 names a
  variable \<open>html\<close> that the function does not have: evaluating the arguments of the
  error raises NameError.
\<close>

definition MediaList_parse ::
  "list_env \<Rightarrow> resource \<Rightarrow> list_doc \<Rightarrow> world \<Rightarrow> (error + info \<times> (resource \<times> info) list) \<times> world" where
  "MediaList_parse env self doc w =
     (if \<not> ld_myanimelist doc then
        (Inl (raise_MalformedMediaListPageError (ident self) (ld_xml doc)
                (''Could not find root XML element in '' @ list_type env @ '' list'')), w)
      else if ld_error doc then (Inl (raise_InvalidMediaListError (ident self)), w)
      else case ld_myinfo doc of
             None \<Rightarrow> (Inl NameError, w)
           | Some stats_elt \<Rightarrow>
               (case list_stats_loop (list_verb env) stats_elt Map.empty of
                  Inl e \<Rightarrow> (Inl e, w)
                | Inr stats \<Rightarrow>
                    (case rows_loop env self (ld_rows doc) [] w of
                       (Inl e, w') \<Rightarrow> (Inl e, w')
                     | (Inr entries, w') \<Rightarrow> (Inr (stats, entries), w'))))"

section \<open>Example sessions, objects and documents\<close>

definition session_off :: session where
  "session_off = \<lparr>suppress_parse_exceptions = False\<rparr>"

definition session_on :: session where
  "session_on = \<lparr>suppress_parse_exceptions = True\<rparr>"

definition world0 :: world where
  "world0 = \<lparr>requests = []\<rparr>"

text \<open>A date parser that accepts nothing.\<close>

definition ppd_none :: "string \<Rightarrow> bool option \<Rightarrow> error + pyval" where
  "ppd_none text kw = Inl ValueError"

text \<open>A document in which every query comes back empty.\<close>

definition blank_page :: page where
  "blank_page = \<lparr>pg_badresult = False, pg_h1 = None, pg_h1_span = [], pg_name_span = False,
     pg_status = [], pg_rating_span = None, pg_rating_div = None,
     pg_popular_tags = (None, Some AttributeError), pg_synopsis = Inl IndexError,
     pg_related = (None, Some AttributeError), pg_characters = (None, Some IndexError),
     pg_content_td = None, pg_producers = Inl IndexError, pg_serialization = Inl AttributeError,
     pg_stat_spans = Map.empty, pg_score_rows = None\<rparr>"

text \<open>The same document with the not-found marker in it.\<close>

definition not_found_page :: page where
  "not_found_page = blank_page\<lparr>pg_badresult := True\<rparr>"

text \<open>An anime page on which every field of the sidebar is found.\<close>

definition full_panel :: info_panel where
  "full_panel = \<lparr>ip_img = Some (Some ''http://cdn.myanimelist.net/images/anime/4/19644.jpg''),
     ip_alt_titles = Some [\<lparr>an_is_language = True, an_span_text = ''Japanese:'',
                            an_rest_text = '' Kaubooi Bibappu, Bebop''\<rparr>],
     ip_type = Some '' TV'', ip_type_divs = [], ip_ranked = Some '' #22'',
     ip_popularity = Some '' #30'', ip_members = Some '' 1,234'', ip_favorites = Some '' 56''\<rparr>"

definition full_page :: page where
  "full_page = blank_page\<lparr>
     pg_h1 := Some (Some \<lparr>has_div = True, own_text = ''Cowboy Bebop''\<rparr>),
     pg_status := [''Status: Finished Airing''],
     pg_rating_span := Some \<lparr>rt_count = Some ''1,000'', rt_value = Some (Some (PDecimal ''8.83''))\<rparr>,
     pg_popular_tags := (Some (PDict []), None),
     pg_synopsis := Inr (PUnicode ''In the year 2071''),
     pg_related := (Some PNone, None),
     pg_content_td := Some None\<rparr>"

definition full_orig :: orig where
  "full_orig = \<lparr>og_h1_span = [], og_name_span = Some ''Cowboy Bebop'',
     og_info_panel = [full_panel], og_genres = Inr (PList [PRef Genre (PInt 1)]),
     og_rating_value = None, og_ranked = [], og_popularity = [], og_members = [],
     og_favorites = [], og_episodes = [''Episodes: 26''], og_aired = [],
     og_duration = (None, Some IndexError), og_rating = [],
     og_voice_actors = ((None, None), Some IndexError), og_staff = Inl IndexError\<rparr>"

text \<open>A site that answers every request with that page, and a URL encoder.\<close>

definition full_site :: "request \<Rightarrow> page \<times> orig" where
  "full_site rq = (full_page, full_orig)"

definition urlencode_text :: "pyval \<Rightarrow> error + string" where
  "urlencode_text v = (case v of PUnicode t \<Rightarrow> Inr t | _ \<Rightarrow> Inl TypeError)"






text \<open>The same page without \<open>Favorites:\<close> anywhere.\<close>

definition no_favorites_panel :: info_panel where
  "no_favorites_panel = full_panel\<lparr>ip_favorites := None\<rparr>"

definition no_favorites_orig :: orig where
  "no_favorites_orig = full_orig\<lparr>og_info_panel := [no_favorites_panel]\<rparr>"

text \<open>The same page without the info panel, and with an empty heading and no name.\<close>

definition no_panel_orig :: orig where
  "no_panel_orig = full_orig\<lparr>og_info_panel := []\<rparr>"

definition untitled_page :: page where
  "untitled_page = full_page\<lparr>pg_h1 := Some (Some \<lparr>has_div = True, own_text = ''  ''\<rparr>)\<rparr>"

definition unnamed_orig :: orig where
  "unnamed_orig = full_orig\<lparr>og_name_span := None\<rparr>"

definition anime_1 :: "session \<Rightarrow> resource" where
  "anime_1 s = \<lparr>cls = Anime, ident = PInt 1, sess = s,
     slots = set_none anime_slots (set_none media_slots Map.empty)\<rparr>"

text \<open>
  An anime list of a user, what it needs from outside, a row of a completed and unscored
  entry, the same row as an entry in progress, and an export without the root element.
\<close>

definition list_1 :: resource where
  "list_1 = \<lparr>cls = MediaList, ident = PUnicode ''shaldengeki'', sess = session_off,
     slots = set_none media_list_slots Map.empty\<rparr>"

definition env_anime :: list_env where
  "env_anime = \<lparr>list_type = ''anime'', list_verb = ''watch'',
     status_terms = Inr [''Unknown'', ''Currently Airing'', ''Finished Airing'', ''Not yet aired''],
     parse_profile_date = ppd_none,
     fromtimestamp = (\<lambda>stamp. Inr (PTuple [PInt stamp]))\<rparr>"

definition row_completed :: row where
  "row_completed = \<lparr>row_series_start = Some ''1998-04-03'', row_series_end = Some ''1999-04-24'',
     row_series_db_id = Some ''1'', row_series_title = Some ''Cowboy Bebop'',
     row_series_status = Some ''2'',
     row_series_image = Some ''http://cdn.myanimelist.net/images/anime/4/19644.jpg'',
     row_my_start_date = Some ''0000-00-00'', row_my_finish_date = Some ''0000-00-00'',
     row_my_status = Some ''2'', row_my_score = Some ''0'',
     row_my_last_updated = Some ''1440658800''\<rparr>"

definition row_watching :: row where
  "row_watching = row_completed\<lparr>row_my_status := Some ''1''\<rparr>"

definition doc_no_root :: list_doc where
  "doc_no_root = \<lparr>ld_xml = PUnicode ''<html></html>'', ld_myanimelist = False,
     ld_error = False, ld_myinfo = None, ld_rows = []\<rparr>"

definition doc_bad_user :: list_doc where
  "doc_bad_user = \<lparr>ld_xml = PUnicode ''<myanimelist><error>Invalid username</error></myanimelist>'',
     ld_myanimelist = True, ld_error = True, ld_myinfo = None, ld_rows = []\<rparr>"

text \<open>The invalid-entity error of an object's class, as its \<open>parse_sidebar\<close> raises it.\<close>

definition not_found_error :: "resource \<Rightarrow> error" where
  "not_found_error self =
     (if cls self = Anime then InvalidAnimeError (ident self)
      else if cls self = Manga then InvalidMangaError (ident self)
      else InvalidMediaError (ident self))"

text \<open>
  What \<open>parse_stats\<close> raises on a page: the not-found error, else what the subclass's
  title check raises, else the AttributeError of the info-panel lookup on \<open>None\<close>.
\<close>

definition parse_stats_error :: "resource \<Rightarrow> page \<Rightarrow> error" where
  "parse_stats_error self media_page =
     (if pg_badresult media_page then not_found_error self
      else if cls self = Anime then
        (case anime_title_check media_page of Some e \<Rightarrow> e | None \<Rightarrow> AttributeError)
      else if cls self = Manga then
        (if \<not> suppress_parse_exceptions (sess self) \<and> \<not> pg_name_span media_page
         then MalformedMangaPageError ''Could not find title'' else AttributeError)
      else AttributeError)"

section \<open>Construction: validation and laziness\<close>

lemma set_none_apply:
  "set_none as d k = (if k \<in> set as then Some PNone else d k)"
  by (induction as arbitrary: d) auto

lemma Media_init_bad:
  "bad_id i \<Longrightarrow> Media_init c s i w = (Inl (InvalidMediaError i), w)"
  by (simp add: Media_init_def Base_init_def)

lemma Anime_init_bad:
  "bad_id i \<Longrightarrow> Anime_init s i w = (Inl (InvalidAnimeError i), w)"
  by (simp add: Anime_init_def)

lemma Manga_init_bad:
  "bad_id i \<Longrightarrow> Manga_init s i w = (Inl (InvalidMangaError i), w)"
  by (simp add: Manga_init_def)

lemma Person_init_bad:
  "bad_id i \<Longrightarrow> Person_init s i w = (Inl (InvalidPersonError i), w)"
  by (simp add: Person_init_def Base_init_def)

lemma bad_id_iff:
  "bad_id i \<longleftrightarrow> \<not> ((\<exists>n. i = PInt n \<and> 1 \<le> n) \<or> i = PBool True)"
  by (cases i) auto

lemma Media_parse_sidebar_badresult:
  "pg_badresult pg \<Longrightarrow> Media_parse_sidebar self pg mo = Inl (InvalidMediaError (ident self))"
  by (simp add: Media_parse_sidebar_def)

lemma Media_parse_sidebar_None:
  "\<not> pg_badresult pg \<Longrightarrow> Media_parse_sidebar self pg None = Inl AttributeError"
  unfolding Media_parse_sidebar_def Let_def
  by (auto simp: try_field_def title_body_def title_tag_body_def Let_def
      split: option.splits binding.splits if_splits prod.splits sum.splits)

section \<open>Handlers, one after the other\<close>

lemma try_fields_on: "try_fields True hs m = Inr (store_all hs m)"
  by (induction hs arbitrary: m) (auto simp: try_field_def split: option.splits)

lemma try_fields_off:
  "try_fields False hs m = (case first_raised hs of Some e \<Rightarrow> Inl e | None \<Rightarrow> Inr (store_all hs m))"
  by (induction hs arbitrary: m) (auto simp: try_field_def split: option.splits)

lemma try_fields_Inr: "try_fields b hs m = Inr m' \<Longrightarrow> m' = store_all hs m"
  by (cases b) (auto simp: try_fields_on try_fields_off split: option.splits)

lemma Media_parse_sidebar_handlers:
  "\<not> pg_badresult pg \<Longrightarrow> og_info_panel d = ip # rest \<Longrightarrow>
   Media_parse_sidebar self pg (Some d) =
     try_fields (suppress_parse_exceptions (sess self)) (sidebar_handlers pg d ip) Map.empty"
  unfolding Media_parse_sidebar_def sidebar_handlers_def Let_def
  by (cases "title_tag_body pg (Some d)")
     (auto simp: try_field_def split: option.splits sum.splits)

lemma store_all_other: "k \<notin> fst ` set hs \<Longrightarrow> store_all hs m k = m k"
  by (induction hs arbitrary: m) (auto split: option.splits)

lemma store_all_key:
  "distinct (map fst hs) \<Longrightarrow> (k, out) \<in> set hs \<Longrightarrow>
   store_all hs m k = (case fst out of None \<Rightarrow> m k | Some v \<Rightarrow> Some v)"
proof (induction hs arbitrary: m)
  case Nil then show ?case by simp
next
  case (Cons h hs)
  obtain k' out' where h: "h = (k', out')" by (cases h)
  show ?case
  proof (cases "k' = k")
    case True
    with Cons.prems h have "out' = out" "k \<notin> fst ` set hs" by (auto simp: image_iff)
    then show ?thesis using h True by (simp add: store_all_other split: option.splits)
  next
    case False
    with Cons h show ?thesis by (auto split: option.splits)
  qed
qed

lemma panel_fields_keys:
  "map fst (panel_fields pg d ip) = [''picture'', ''alternative_titles'', ''type'', ''status'',
     ''genres'', ''score'', ''rank'', ''popularity'', ''members'', ''favorites'', ''popular_tags'']"
  by (simp add: panel_fields_def)

lemma store_all_sidebar_panel:
  assumes "(k, out) \<in> set (panel_fields pg d ip)"
  shows "store_all (sidebar_handlers pg d ip) Map.empty k = fst out"
proof -
  have d: "distinct (map fst (panel_fields pg d ip))" by (simp add: panel_fields_keys)
  have "k \<in> set (map fst (panel_fields pg d ip))" using assms by force
  then have kt: "k \<noteq> ''title''" by (auto simp: panel_fields_keys)
  have "store_all (sidebar_handlers pg d ip) Map.empty k
      = store_all (panel_fields pg d ip)
          (case fst (title_body (fst (title_tag_body pg (Some d))) (Some d)) of
             None \<Rightarrow> Map.empty | Some v \<Rightarrow> [''title'' \<mapsto> v]) k"
    by (simp add: sidebar_handlers_def)
  also have "\<dots> = fst out"
    using store_all_key [OF d assms] kt by (auto split: option.splits)
  finally show ?thesis .
qed

lemma store_all_sidebar_title:
  "store_all (sidebar_handlers pg d ip) Map.empty ''title''
     = fst (title_body (fst (title_tag_body pg (Some d))) (Some d))"
proof -
  have "''title'' \<notin> set (map fst (panel_fields pg d ip))"
    unfolding panel_fields_keys by simp
  then have "''title'' \<notin> fst ` set (panel_fields pg d ip)" by simp
  then show ?thesis
    by (auto simp: sidebar_handlers_def store_all_other split: option.splits)
qed

lemma try_fields_untouched:
  "try_fields b hs m = Inr m' \<Longrightarrow> k \<notin> fst ` set hs \<Longrightarrow> m' k = m k"
  using try_fields_Inr store_all_other by metis

lemma Media_parse_sidebar_no_panel:
  "og_info_panel d = [] \<Longrightarrow> \<exists>e. Media_parse_sidebar self pg (Some d) = Inl e"
  unfolding Media_parse_sidebar_def Let_def
  by (auto split: prod.splits option.splits sum.splits)

lemma Media_parse_sidebar_stats_keys:
  assumes "Media_parse_sidebar self pg mo = Inr m" and "k = ''status_stats'' \<or> k = ''score_stats''"
  shows "m k = None"
proof -
  have nb: "\<not> pg_badresult pg"
    using assms(1) by (auto simp: Media_parse_sidebar_badresult)
  obtain d where mo: "mo = Some d"
    using assms(1) nb by (cases mo) (auto simp: Media_parse_sidebar_None)
  obtain ip rest where ip: "og_info_panel d = ip # rest"
    using assms(1) mo Media_parse_sidebar_no_panel [of d self pg]
    by (cases "og_info_panel d") auto
  have "try_fields (suppress_parse_exceptions (sess self)) (sidebar_handlers pg d ip) Map.empty = Inr m"
    using assms(1) mo Media_parse_sidebar_handlers [OF nb ip] by simp
  moreover have "k \<notin> fst ` set (sidebar_handlers pg d ip)"
    using assms(2) by (auto simp: sidebar_handlers_def panel_fields_def)
  ultimately show ?thesis
    using try_fields_untouched by fastforce
qed

lemma parse_sidebar_stats_keys:
  assumes "parse_sidebar ppd self pg mo = Inr m" and "k = ''status_stats'' \<or> k = ''score_stats''"
  shows "m k = None"
proof -
  consider (a) "cls self = Anime" | (b) "cls self \<noteq> Anime" "cls self = Manga"
    | (c) "cls self \<noteq> Anime" "cls self \<noteq> Manga" by blast
  then show ?thesis
  proof cases
    case a
    let ?hs = "[(''episodes'', episodes_body mo),
        (''aired'', aired_body ppd (suppress_parse_exceptions (sess self)) mo),
        (''producers'', of_result (pg_producers pg)),
        (''duration'', duration_body mo),
        (''rating'', rating_body mo)]"
    from a assms(1) obtain m0 where m0: "Media_parse_sidebar self pg mo = Inr m0"
      and tf: "try_fields (suppress_parse_exceptions (sess self)) ?hs m0 = Inr m"
      by (auto simp del: try_fields.simps
          simp: parse_sidebar_def Anime_parse_sidebar_def Let_def
          split: if_splits option.splits sum.splits)
    have "m k = m0 k"
      using assms(2) by (intro try_fields_untouched [OF tf]) auto
    then show ?thesis
      using Media_parse_sidebar_stats_keys [OF m0 assms(2)] by simp
  next
    case b
    from b assms(1) obtain m0 ip where m0: "Media_parse_sidebar self pg mo = Inr m0"
      and tf: "try_fields (suppress_parse_exceptions (sess self)) (manga_fields ppd pg ip) m0 = Inr m"
      by (auto simp del: try_fields.simps
          simp: parse_sidebar_def Manga_parse_sidebar_def Let_def
          split: if_splits option.splits sum.splits)
    have "m k = m0 k"
      using assms(2) by (intro try_fields_untouched [OF tf]) (auto simp: manga_fields_def)
    then show ?thesis
      using Media_parse_sidebar_stats_keys [OF m0 assms(2)] by simp
  next
    case c
    then show ?thesis
      using assms Media_parse_sidebar_stats_keys by (simp add: parse_sidebar_def)
  qed
qed

lemma Media_parse_stats_keys:
  assumes "Media_parse ppd self pg mo = Inr m" and "k = ''status_stats'' \<or> k = ''score_stats''"
  shows "m k = None"
proof -
  obtain m0 where m0: "parse_sidebar ppd self pg mo = Inr m0"
    and tf: "try_fields (suppress_parse_exceptions (sess self))
       [(''synopsis'', of_result (pg_synopsis pg)), (''related'', pg_related pg)] m0 = Inr m"
    using assms(1) by (auto simp: Media_parse_def split: sum.splits)
  have "m k = m0 k"
    using tf assms(2) by (intro try_fields_untouched [OF tf]) auto
  then show ?thesis using parse_sidebar_stats_keys [OF m0 assms(2)] by simp
qed

lemma Media_load_stats_slots:
  assumes "Media_load ppd site self w = (r, self', w')"
    and "k = ''status_stats'' \<or> k = ''score_stats''"
  shows "slots self' (CHR ''_'' # k) = slots self (CHR ''_'' # k)"
proof -
  obtain pg d where site: "site (MainPage (cls self) (ident self)) = (pg, d)"
    by (cases "site (MainPage (cls self) (ident self))")
  show ?thesis
  proof (cases "Media_parse ppd self pg (Some d)")
    case (Inl e)
    then have "self' = self"
      using assms(1) site by (simp add: Media_load_def http_get_def)
    then show ?thesis by simp
  next
    case (Inr m)
    then have "self' = Base_set self m"
      using assms(1) site by (simp add: Media_load_def http_get_def)
    moreover have "m k = None" using Media_parse_stats_keys [OF Inr assms(2)] .
    ultimately show ?thesis by (simp add: Base_set_def)
  qed
qed

lemma loadable_title_slots:
  assumes "loadable (Media_load ppd site) ''title'' self w = (r, self', w')"
    and "k = ''status_stats'' \<or> k = ''score_stats''"
  shows "slots self' (CHR ''_'' # k) = slots self (CHR ''_'' # k)"
proof (cases "Media_load ppd site self w")
  case (fields r0 s0 w0)
  have "slots s0 (CHR ''_'' # k) = slots self (CHR ''_'' # k)"
    using Media_load_stats_slots [OF fields assms(2)] .
  moreover have "self' = self \<or> self' = s0"
    using assms(1) fields
    by (auto simp: loadable_def split: option.splits if_splits)
  ultimately show ?thesis by auto
qed

lemma Media_load_stats_raises:
  "\<exists>e self' w'. Media_load_stats ppd urlencode verb site self w = (Some e, self', w')
     \<and> slots self' ''_status_stats'' = slots self ''_status_stats''
     \<and> slots self' ''_score_stats'' = slots self ''_score_stats''"
proof (cases "loadable (Media_load ppd site) ''title'' self w")
  case (fields r self1 w1)
  have s: "slots self1 ''_status_stats'' = slots self ''_status_stats''"
      "slots self1 ''_score_stats'' = slots self ''_score_stats''"
    using loadable_title_slots [OF fields] by auto
  have ps: "Media_parse_stats ppd verb self1 pg = Inl (parse_stats_error self1 pg)" for pg
    unfolding Media_parse_stats_def parse_sidebar_def Anime_parse_sidebar_def
      Manga_parse_sidebar_def Let_def parse_stats_error_def not_found_error_def
    by (auto simp: Media_parse_sidebar_None Media_parse_sidebar_badresult manga_title_check_def
        split: option.splits)
  show ?thesis
    using fields s
    by (auto simp: Media_load_stats_def http_get_def ps split: sum.splits prod.splits)
qed

lemma int_out_atomic: "snd (int_out t) \<noteq> None \<Longrightarrow> fst (int_out t) = None"
  by (auto simp: int_out_def split: sum.splits)

lemma picture_atomic: "snd (picture_body ip) \<noteq> None \<Longrightarrow> fst (picture_body ip) = None"
  by (auto simp: picture_body_def split: option.splits if_splits)
lemma type_atomic: "snd (type_body ip) \<noteq> None \<Longrightarrow> fst (type_body ip) = None"
  by (auto simp: type_body_def split: option.splits list.splits)
lemma status_atomic: "snd (status_body pg) \<noteq> None \<Longrightarrow> fst (status_body pg) = None"
  by (auto simp: status_body_def split: list.splits sum.splits)
lemma score_atomic: "snd (score_body pg d) \<noteq> None \<Longrightarrow> fst (score_body pg d) = None"
  by (auto simp: score_body_def Let_def split: option.splits sum.splits)
lemma rank_atomic: "snd (rank_body ip d) \<noteq> None \<Longrightarrow> fst (rank_body ip d) = None"
  by (auto simp: rank_body_def int_out_atomic split: option.splits list.splits)
lemma popularity_atomic: "snd (popularity_body ip d) \<noteq> None \<Longrightarrow> fst (popularity_body ip d) = None"
  by (auto simp: popularity_body_def int_out_atomic split: option.splits list.splits)
lemma members_atomic: "snd (members_body ip d) \<noteq> None \<Longrightarrow> fst (members_body ip d) = None"
  by (auto simp: members_body_def int_out_atomic split: option.splits list.splits)
lemma favorites_atomic: "snd (favorites_body ip d) \<noteq> None \<Longrightarrow> fst (favorites_body ip d) = None"
  by (auto simp: favorites_body_def int_out_atomic split: option.splits list.splits)

lemma sidebar_result:
  "store_all (sidebar_handlers pg d ip) Map.empty k =
     (if k = ''title'' then fst (title_body (fst (title_tag_body pg (Some d))) (Some d))
      else if k = ''picture'' then fst (picture_body ip)
      else if k = ''alternative_titles'' then fst (alt_titles_body ip)
      else if k = ''type'' then fst (type_body ip)
      else if k = ''status'' then fst (status_body pg)
      else if k = ''genres'' then fst (of_result (og_genres d))
      else if k = ''score'' then fst (score_body pg d)
      else if k = ''rank'' then fst (rank_body ip d)
      else if k = ''popularity'' then fst (popularity_body ip d)
      else if k = ''members'' then fst (members_body ip d)
      else if k = ''favorites'' then fst (favorites_body ip d)
      else if k = ''popular_tags'' then fst (pg_popular_tags pg)
      else None)"
proof -
  let ?r = "\<lambda>k. store_all (sidebar_handlers pg d ip) Map.empty k"
  have p: "?r key = fst out" if "(key, out) \<in> set (panel_fields pg d ip)" for key out
    using that by (rule store_all_sidebar_panel)
  have "?r ''picture'' = fst (picture_body ip)" by (rule p) (simp add: panel_fields_def)
  moreover have "?r ''alternative_titles'' = fst (alt_titles_body ip)"
    by (rule p) (simp add: panel_fields_def)
  moreover have "?r ''type'' = fst (type_body ip)" by (rule p) (simp add: panel_fields_def)
  moreover have "?r ''status'' = fst (status_body pg)" by (rule p) (simp add: panel_fields_def)
  moreover have "?r ''genres'' = fst (of_result (og_genres d))"
    by (rule p) (simp add: panel_fields_def)
  moreover have "?r ''score'' = fst (score_body pg d)" by (rule p) (simp add: panel_fields_def)
  moreover have "?r ''rank'' = fst (rank_body ip d)" by (rule p) (simp add: panel_fields_def)
  moreover have "?r ''popularity'' = fst (popularity_body ip d)"
    by (rule p) (simp add: panel_fields_def)
  moreover have "?r ''members'' = fst (members_body ip d)" by (rule p) (simp add: panel_fields_def)
  moreover have "?r ''favorites'' = fst (favorites_body ip d)"
    by (rule p) (simp add: panel_fields_def)
  moreover have "?r ''popular_tags'' = fst (pg_popular_tags pg)"
    by (rule p) (simp add: panel_fields_def)
  moreover have "?r ''title'' = fst (title_body (fst (title_tag_body pg (Some d))) (Some d))"
    by (rule store_all_sidebar_title)
  moreover have "?r k = None"
    if "k \<notin> set [''title'', ''picture'', ''alternative_titles'', ''type'', ''status'', ''genres'',
          ''score'', ''rank'', ''popularity'', ''members'', ''favorites'', ''popular_tags'']"
  proof -
    have "fst ` set (sidebar_handlers pg d ip) = set (map fst (sidebar_handlers pg d ip))"
      by simp
    also have "\<dots> = set [''title'', ''picture'', ''alternative_titles'', ''type'', ''status'',
        ''genres'', ''score'', ''rank'', ''popularity'', ''members'', ''favorites'', ''popular_tags'']"
      by (simp add: sidebar_handlers_def panel_fields_keys)
    finally show ?thesis using that store_all_other [of k "sidebar_handlers pg d ip" Map.empty]
      by simp
  qed
  ultimately show ?thesis by auto
qed

lemma favorites_independent:
  assumes "k \<noteq> ''favorites''"
  shows "store_all (sidebar_handlers pg (d\<lparr>og_favorites := fs\<rparr>) (ip\<lparr>ip_favorites := f\<rparr>)) Map.empty k
       = store_all (sidebar_handlers pg d ip) Map.empty k"
proof -
  have "title_tag_body pg (Some (d\<lparr>og_favorites := fs\<rparr>)) = title_tag_body pg (Some d)"
    by (simp add: title_tag_body_def split: option.splits list.splits)
  moreover have "title_body tt (Some (d\<lparr>og_favorites := fs\<rparr>)) = title_body tt (Some d)" for tt
    by (simp add: title_body_def Let_def split: option.splits binding.splits)
  moreover have "picture_body (ip\<lparr>ip_favorites := f\<rparr>) = picture_body ip"
    by (simp add: picture_body_def)
  moreover have "alt_titles_body (ip\<lparr>ip_favorites := f\<rparr>) = alt_titles_body ip"
    by (simp add: alt_titles_body_def)
  moreover have "type_body (ip\<lparr>ip_favorites := f\<rparr>) = type_body ip"
    by (simp add: type_body_def split: option.splits)
  moreover have "score_body pg (d\<lparr>og_favorites := fs\<rparr>) = score_body pg d"
    by (simp add: score_body_def Let_def split: option.splits sum.splits)
  moreover have "rank_body (ip\<lparr>ip_favorites := f\<rparr>) (d\<lparr>og_favorites := fs\<rparr>) = rank_body ip d"
    by (simp add: rank_body_def split: option.splits)
  moreover have "popularity_body (ip\<lparr>ip_favorites := f\<rparr>) (d\<lparr>og_favorites := fs\<rparr>)
      = popularity_body ip d"
    by (simp add: popularity_body_def split: option.splits)
  moreover have "members_body (ip\<lparr>ip_favorites := f\<rparr>) (d\<lparr>og_favorites := fs\<rparr>)
      = members_body ip d"
    by (simp add: members_body_def split: option.splits)
  ultimately show ?thesis
    using assms by (simp add: sidebar_result)
qed






section \<open>The claims\<close>

text \<open>
  Claim C4. For a positive integer identity, each constructor of an ID-keyed resource
  returns the object and leaves the network untouched: the object records the identity
  and the session, and its cache slots are exactly the slots named here, each \<open>None\<close>.
\<close>

theorem constructor_is_lazy:
  assumes "1 \<le> n"
  shows "(\<exists>r. Media_init c s (PInt n) w = (Inr r, w)
            \<and> cls r = c \<and> ident r = PInt n \<and> sess r = s
            \<and> (\<forall>k. slots r k =
                 (if k \<in> set [''_title'', ''_picture'', ''_alternative_titles'', ''_type'',
                      ''_status'', ''_genres'', ''_score'', ''_rank'', ''_popularity'',
                      ''_members'', ''_favorites'', ''_popular_tags'', ''_synopsis'',
                      ''_related'', ''_characters'', ''_score_stats'', ''_status_stats'']
                  then Some PNone else None)))
       \<and> (\<exists>r. Anime_init s (PInt n) w = (Inr r, w)
            \<and> cls r = Anime \<and> ident r = PInt n \<and> sess r = s
            \<and> (\<forall>k. slots r k =
                 (if k \<in> set [''_title'', ''_picture'', ''_alternative_titles'', ''_type'',
                      ''_status'', ''_genres'', ''_score'', ''_rank'', ''_popularity'',
                      ''_members'', ''_favorites'', ''_popular_tags'', ''_synopsis'',
                      ''_related'', ''_characters'', ''_score_stats'', ''_status_stats'',
                      ''_episodes'', ''_aired'', ''_producers'', ''_duration'', ''_rating'',
                      ''_voice_actors'', ''_staff'']
                  then Some PNone else None)))
       \<and> (\<exists>r. Manga_init s (PInt n) w = (Inr r, w)
            \<and> cls r = Manga \<and> ident r = PInt n \<and> sess r = s
            \<and> (\<forall>k. slots r k =
                 (if k \<in> set [''_title'', ''_picture'', ''_alternative_titles'', ''_type'',
                      ''_status'', ''_genres'', ''_score'', ''_rank'', ''_popularity'',
                      ''_members'', ''_favorites'', ''_popular_tags'', ''_synopsis'',
                      ''_related'', ''_characters'', ''_score_stats'', ''_status_stats'',
                      ''_volumes'', ''_chapters'', ''_published'', ''_authors'',
                      ''_serialization'']
                  then Some PNone else None)))
       \<and> (\<exists>r. Person_init s (PInt n) w = (Inr r, w)
            \<and> cls r = Person \<and> ident r = PInt n \<and> sess r = s
            \<and> (\<forall>k. slots r k =
                 (if k \<in> set [''_name'', ''_voice_acting_roles'', ''_anime_staff_positions'',
                      ''_published_manga'']
                  then Some PNone else None)))"
proof -
  have media: "\<exists>r. Media_init c s (PInt n) w = (Inr r, w)
            \<and> cls r = c \<and> ident r = PInt n \<and> sess r = s
            \<and> (\<forall>k. slots r k =
                 (if k \<in> set [''_title'', ''_picture'', ''_alternative_titles'', ''_type'',
                      ''_status'', ''_genres'', ''_score'', ''_rank'', ''_popularity'',
                      ''_members'', ''_favorites'', ''_popular_tags'', ''_synopsis'',
                      ''_related'', ''_characters'', ''_score_stats'', ''_status_stats'']
                  then Some PNone else None))"
    using assms
    by (simp add: Media_init_def Base_init_def set_none_apply media_slots_def)
  have anime: "\<exists>r. Anime_init s (PInt n) w = (Inr r, w)
            \<and> cls r = Anime \<and> ident r = PInt n \<and> sess r = s
            \<and> (\<forall>k. slots r k =
                 (if k \<in> set [''_title'', ''_picture'', ''_alternative_titles'', ''_type'',
                      ''_status'', ''_genres'', ''_score'', ''_rank'', ''_popularity'',
                      ''_members'', ''_favorites'', ''_popular_tags'', ''_synopsis'',
                      ''_related'', ''_characters'', ''_score_stats'', ''_status_stats'',
                      ''_episodes'', ''_aired'', ''_producers'', ''_duration'', ''_rating'',
                      ''_voice_actors'', ''_staff'']
                  then Some PNone else None))"
    using assms
    by (simp add: Anime_init_def Media_init_def Base_init_def set_none_apply media_slots_def
        anime_slots_def)
  have manga: "\<exists>r. Manga_init s (PInt n) w = (Inr r, w)
            \<and> cls r = Manga \<and> ident r = PInt n \<and> sess r = s
            \<and> (\<forall>k. slots r k =
                 (if k \<in> set [''_title'', ''_picture'', ''_alternative_titles'', ''_type'',
                      ''_status'', ''_genres'', ''_score'', ''_rank'', ''_popularity'',
                      ''_members'', ''_favorites'', ''_popular_tags'', ''_synopsis'',
                      ''_related'', ''_characters'', ''_score_stats'', ''_status_stats'',
                      ''_volumes'', ''_chapters'', ''_published'', ''_authors'',
                      ''_serialization'']
                  then Some PNone else None))"
    using assms
    by (simp add: Manga_init_def Media_init_def Base_init_def set_none_apply media_slots_def
        manga_slots_def)
  have person: "\<exists>r. Person_init s (PInt n) w = (Inr r, w)
            \<and> cls r = Person \<and> ident r = PInt n \<and> sess r = s
            \<and> (\<forall>k. slots r k =
                 (if k \<in> set [''_name'', ''_voice_acting_roles'', ''_anime_staff_positions'',
                      ''_published_manga'']
                  then Some PNone else None))"
    using assms
    by (simp add: Person_init_def Base_init_def set_none_apply person_slots_def)
  show ?thesis
    apply (intro conjI)
    subgoal by (rule media)
    subgoal by (rule anime)
    subgoal by (rule manga)
    subgoal by (rule person)
    done
qed

theorem constructor_is_lazy_witness:
  "(\<exists>r. Anime_init session_off (PInt 7) world0 = (Inr r, world0)
       \<and> cls r = Anime \<and> ident r = PInt 7
       \<and> slots r ''_title'' = Some PNone \<and> slots r ''_score_stats'' = Some PNone
       \<and> slots r ''_episodes'' = Some PNone \<and> slots r ''_staff'' = Some PNone
       \<and> slots r ''_volumes'' = None \<and> slots r ''title'' = None)
   \<and> (\<exists>r. Person_init session_off (PInt 7) world0 = (Inr r, world0)
       \<and> slots r ''_name'' = Some PNone \<and> slots r ''_published_manga'' = Some PNone
       \<and> slots r ''_title'' = None)"
proof -
  have pos: "(1::int) \<le> 7" by simp
  note t = constructor_is_lazy [OF pos, of Anime session_off world0]
  from t [THEN conjunct2, THEN conjunct1] obtain r where r:
    "Anime_init session_off (PInt 7) world0 = (Inr r, world0)" "cls r = Anime" "ident r = PInt 7"
    "\<forall>k. slots r k =
       (if k \<in> set [''_title'', ''_picture'', ''_alternative_titles'', ''_type'',
            ''_status'', ''_genres'', ''_score'', ''_rank'', ''_popularity'',
            ''_members'', ''_favorites'', ''_popular_tags'', ''_synopsis'',
            ''_related'', ''_characters'', ''_score_stats'', ''_status_stats'',
            ''_episodes'', ''_aired'', ''_producers'', ''_duration'', ''_rating'',
            ''_voice_actors'', ''_staff'']
        then Some PNone else None)"
    by blast
  from t [THEN conjunct2, THEN conjunct2, THEN conjunct2] obtain q where q:
    "Person_init session_off (PInt 7) world0 = (Inr q, world0)"
    "\<forall>k. slots q k =
       (if k \<in> set [''_name'', ''_voice_acting_roles'', ''_anime_staff_positions'',
            ''_published_manga'']
        then Some PNone else None)"
    by blast
  have "slots r ''_title'' = Some PNone" "slots r ''_score_stats'' = Some PNone"
    "slots r ''_episodes'' = Some PNone" "slots r ''_staff'' = Some PNone"
    "slots r ''_volumes'' = None" "slots r ''title'' = None"
    using r(4) by simp_all
  moreover have "slots q ''_name'' = Some PNone" "slots q ''_published_manga'' = Some PNone"
    "slots q ''_title'' = None"
    using q(2) by simp_all
  ultimately show ?thesis using r(1,2,3) q(1) by blast
qed

text \<open>
  Claim C3, at the input where the code departs from it: a byte-string username that is
  not valid UTF-8. The constructor's \<open>raise InvalidMediaListError(self.username)\<close> runs
  the error's \<open>__init__\<close>, whose \<open>str(username).decode('utf-8')\<close> raises
  UnicodeDecodeError, and that is the exception that leaves the constructor.
\<close>

theorem MediaList_init_undecodable_username:
  "MediaList_init s (PStr [CHR 0xFF, CHR 0xFE, CHR 0xFD, CHR 0xFC]) w = (Inl UnicodeDecodeError, w)"
  by (simp add: MediaList_init_def Base_init_def raise_InvalidMediaListError_def)

text \<open>
  Claim C6. On a page with the not-found marker every parser of a media object raises
  the invalid-entity error of the object's class, whatever else the page holds or
  lacks, whatever the original document and the suppression flag; that error is an
  invalid-entity error and not a malformed-page error.
\<close>

theorem not_found_marker_raises_invalid_entity:
  assumes "pg_badresult pg"
  shows "Media_parse_sidebar self pg mo = Inl (InvalidMediaError (ident self))
       \<and> parse_sidebar ppd self pg mo = Inl (not_found_error self)
       \<and> Media_parse ppd self pg mo = Inl (not_found_error self)
       \<and> Media_parse_stats ppd verb self pg = Inl (not_found_error self)
       \<and> Media_parse_characters ppd self pg mo = Inl (not_found_error self)
       \<and> Anime_parse_characters ppd self pg mo = Inl (not_found_error self)
       \<and> is_invalid_entity (not_found_error self)
       \<and> \<not> is_malformed_page (not_found_error self)"
proof -
  have sb: "parse_sidebar ppd self pg m = Inl (not_found_error self)" for m
    using assms
    by (simp add: parse_sidebar_def Anime_parse_sidebar_def Manga_parse_sidebar_def
        Media_parse_sidebar_badresult not_found_error_def)
  show ?thesis
    using assms
    by (simp add: sb Media_parse_sidebar_badresult Media_parse_def Media_parse_stats_def
        Media_parse_characters_def Anime_parse_characters_def not_found_error_def)
qed

theorem not_found_marker_raises_invalid_entity_witness:
  "pg_badresult not_found_page
   \<and> Media_parse ppd_none (anime_1 session_on) not_found_page None = Inl (InvalidAnimeError (PInt 1))
   \<and> Media_parse_stats ppd_none ''watch'' (anime_1 session_off) not_found_page
       = Inl (InvalidAnimeError (PInt 1))"
proof -
  have b: "pg_badresult not_found_page"
    by (simp add: not_found_page_def blank_page_def)
  from not_found_marker_raises_invalid_entity [OF b, of "anime_1 session_on" None ppd_none "''watch''"]
    not_found_marker_raises_invalid_entity [OF b, of "anime_1 session_off" None ppd_none "''watch''"]
  show ?thesis
    using b by (simp add: not_found_error_def anime_1_def)
qed

text \<open>
  Claim C9 as stated fails on a page with the not-found marker: \<open>parse_stats\<close> raises
  the invalid-entity error there, not an AttributeError.
\<close>

theorem parse_stats_not_always_AttributeError:
  "\<not> (\<forall>ppd verb self pg. Media_parse_stats ppd verb self pg = Inl AttributeError)"
proof
  assume "\<forall>ppd verb self pg. Media_parse_stats ppd verb self pg = Inl AttributeError"
  then have "Media_parse_stats ppd_none ''watch'' (anime_1 session_on) not_found_page = Inl AttributeError"
    by blast
  moreover have "Media_parse_stats ppd_none ''watch'' (anime_1 session_on) not_found_page
      = Inl (InvalidAnimeError (PInt 1))"
    by (simp add: Media_parse_stats_def parse_sidebar_def Anime_parse_sidebar_def
        not_found_page_def blank_page_def anime_1_def)
  ultimately show False by simp
qed

text \<open>
  Claim C9, amended. The info-panel lookup of \<open>Media.parse_sidebar\<close> is outside every
  handler: when the original document is \<open>None\<close> or has no such cell, the call raises
  and returns no mapping, with or without suppression. \<open>parse_stats\<close> passes no
  original document, so every call of it raises and stores no stats field: the
  not-found error on a page with the marker, else the error of the subclass's title
  check when that check fails, else an AttributeError. Hence every call of
  \<open>load_stats\<close> raises too, and leaves the slots \<open>_status_stats\<close> and \<open>_score_stats\<close>
  as they were.
\<close>

theorem parse_stats_always_raises:
  "Media_parse_stats ppd verb self pg = Inl (parse_stats_error self pg)
   \<and> (\<not> pg_badresult pg \<longrightarrow> Media_parse_sidebar self pg None = Inl AttributeError)
   \<and> (mo = None \<or> (\<exists>d. mo = Some d \<and> og_info_panel d = [])
        \<longrightarrow> (\<exists>e. Media_parse_sidebar self pg mo = Inl e))
   \<and> (\<exists>e self' w'. Media_load_stats ppd urlencode verb site self w = (Some e, self', w')
        \<and> slots self' ''_status_stats'' = slots self ''_status_stats''
        \<and> slots self' ''_score_stats'' = slots self ''_score_stats'')"
proof -
  have 1: "Media_parse_stats ppd verb self pg = Inl (parse_stats_error self pg)"
    unfolding Media_parse_stats_def parse_sidebar_def Anime_parse_sidebar_def
      Manga_parse_sidebar_def Let_def parse_stats_error_def not_found_error_def
    by (auto simp: Media_parse_sidebar_None Media_parse_sidebar_badresult manga_title_check_def
        split: option.splits)
  have 2: "\<not> pg_badresult pg \<longrightarrow> Media_parse_sidebar self pg None = Inl AttributeError"
    by (simp add: Media_parse_sidebar_None)
  have 3: "\<exists>e. Media_parse_sidebar self pg None = Inl e"
    by (cases "pg_badresult pg") (simp_all add: Media_parse_sidebar_None Media_parse_sidebar_badresult)
  have 4: "mo = None \<or> (\<exists>d. mo = Some d \<and> og_info_panel d = [])
        \<longrightarrow> (\<exists>e. Media_parse_sidebar self pg mo = Inl e)"
    using 3 Media_parse_sidebar_no_panel by blast
  have 5: "\<exists>e self' w'. Media_load_stats ppd urlencode verb site self w = (Some e, self', w')
        \<and> slots self' ''_status_stats'' = slots self ''_status_stats''
        \<and> slots self' ''_score_stats'' = slots self ''_score_stats''"
    by (rule Media_load_stats_raises)
  show ?thesis
    apply (intro conjI)
    subgoal by (rule 1)
    subgoal by (rule 2)
    subgoal by (rule 4)
    subgoal by (rule 5)
    done
qed

theorem parse_stats_always_raises_witness:
  "\<not> pg_badresult full_page
   \<and> Media_parse_sidebar (anime_1 session_on) full_page None = Inl AttributeError
   \<and> Media_parse_stats ppd_none ''watch'' (anime_1 session_on) full_page = Inl AttributeError
   \<and> (\<exists>self' w'. Media_load_stats ppd_none urlencode_text ''watch'' full_site
                    (anime_1 session_on) world0 = (Some AttributeError, self', w')
          \<and> slots self' ''_status_stats'' = Some PNone)"
proof -
  note t = parse_stats_always_raises [of ppd_none "''watch''" "anime_1 session_on" full_page None
      urlencode_text full_site world0]
  have b: "\<not> pg_badresult full_page" by (simp add: full_page_def blank_page_def)
  have e: "parse_stats_error (anime_1 session_on) full_page = AttributeError"
    by (simp add: parse_stats_error_def full_page_def blank_page_def anime_1_def
        anime_title_check_def)
  have 1: "Media_parse_stats ppd_none ''watch'' (anime_1 session_on) full_page = Inl AttributeError"
    using t [THEN conjunct1] e by simp
  have 2: "Media_parse_sidebar (anime_1 session_on) full_page None = Inl AttributeError"
    using t [THEN conjunct2, THEN conjunct1] b by blast
  from t [THEN conjunct2, THEN conjunct2, THEN conjunct2] obtain e' self' w' where l:
    "Media_load_stats ppd_none urlencode_text ''watch'' full_site (anime_1 session_on) world0
       = (Some e', self', w')"
    "slots self' ''_status_stats'' = slots (anime_1 session_on) ''_status_stats''"
    by blast
  have "fst (Media_load_stats ppd_none urlencode_text ''watch'' full_site (anime_1 session_on)
      world0) = Some AttributeError"
    by code_simp
  then have e': "e' = AttributeError" using l(1) by simp
  have "slots (anime_1 session_on) ''_status_stats'' = Some PNone"
    by (simp add: anime_1_def set_none_apply media_slots_def anime_slots_def)
  then show ?thesis using b 1 2 l e' by auto
qed

text \<open>
  Claim C5 as stated fails in two ways, both with suppression enabled. On a page whose
  info panel cannot be located the parse raises and commits nothing, although other
  fields (the status, for one) are there to extract. And a field can be left set rather
  than unset: with an empty heading and no name element to fall back on, the title
  handler raises after it has stored the empty string, which stays in the mapping.
\<close>

theorem suppression_not_every_page:
  "Media_parse_sidebar (anime_1 session_on) full_page (Some no_panel_orig) = Inl IndexError
   \<and> status_body full_page = (Some (PUnicode ''Finished Airing''), None)
   \<and> title_body (fst (title_tag_body untitled_page (Some unnamed_orig))) (Some unnamed_orig)
       = (Some (PUnicode ''''), Some AttributeError)
   \<and> (\<exists>m. Media_parse_sidebar (anime_1 session_on) untitled_page (Some unnamed_orig) = Inr m
          \<and> m ''title'' = Some (PUnicode ''''))"
proof -
  have "(case Media_parse_sidebar (anime_1 session_on) full_page (Some no_panel_orig) of
           Inl e \<Rightarrow> e = IndexError | Inr m \<Rightarrow> False)"
    by code_simp
  then have 1: "Media_parse_sidebar (anime_1 session_on) full_page (Some no_panel_orig)
      = Inl IndexError"
    by (simp split: sum.splits)
  have 2: "status_body full_page = (Some (PUnicode ''Finished Airing''), None)"
    by code_simp
  have 3: "title_body (fst (title_tag_body untitled_page (Some unnamed_orig))) (Some unnamed_orig)
       = (Some (PUnicode ''''), Some AttributeError)"
    by code_simp
  have b: "\<not> pg_badresult untitled_page"
    by (simp add: untitled_page_def full_page_def blank_page_def)
  have p: "og_info_panel unnamed_orig = full_panel # []"
    by (simp add: unnamed_orig_def full_orig_def)
  have s: "suppress_parse_exceptions (sess (anime_1 session_on))"
    by (simp add: anime_1_def session_on_def)
  let ?m = "store_all (sidebar_handlers untitled_page unnamed_orig full_panel) Map.empty"
  have r: "Media_parse_sidebar (anime_1 session_on) untitled_page (Some unnamed_orig) = Inr ?m"
    using Media_parse_sidebar_handlers [OF b p, of "anime_1 session_on"] s
    by (simp add: try_fields_on)
  have t: "?m ''title'' = Some (PUnicode '''')"
    by code_simp
  have 4: "\<exists>m. Media_parse_sidebar (anime_1 session_on) untitled_page (Some unnamed_orig) = Inr m
          \<and> m ''title'' = Some (PUnicode '''')"
    using r t by blast
  show ?thesis
    apply (intro conjI)
    subgoal by (rule 1)
    subgoal by (rule 2)
    subgoal by (rule 3)
    subgoal by (rule 4)
    done
qed

text \<open>
  Claim C5, amended. On a page that passes the not-found check and whose info panel is
  found, \<open>Media.parse_sidebar\<close> with suppression enabled always returns a mapping: the
  entry of each field is what the field's own handler stored, so a handler that fails
  changes no other field. The handlers of picture, type, status, genres, score, rank,
  popularity, members and favorites store nothing when they raise; in particular a
  page without \<open>Favorites:\<close> leaves favorites unset and every other entry as it would
  be with it. With suppression disabled the first exception a handler raises leaves
  the parse and no mapping is returned.
\<close>

theorem suppression_keeps_other_fields:
  assumes "\<not> pg_badresult pg" and "og_info_panel d = ip # rest"
  shows "(suppress_parse_exceptions (sess self) \<longrightarrow>
            Media_parse_sidebar self pg (Some d)
              = Inr (store_all (sidebar_handlers pg d ip) Map.empty))
       \<and> (\<not> suppress_parse_exceptions (sess self) \<longrightarrow>
            Media_parse_sidebar self pg (Some d)
              = (case first_raised (sidebar_handlers pg d ip) of
                   Some e \<Rightarrow> Inl e
                 | None \<Rightarrow> Inr (store_all (sidebar_handlers pg d ip) Map.empty)))
       \<and> (\<forall>k. store_all (sidebar_handlers pg d ip) Map.empty k =
            (if k = ''title'' then fst (title_body (fst (title_tag_body pg (Some d))) (Some d))
             else if k = ''picture'' then fst (picture_body ip)
             else if k = ''alternative_titles'' then fst (alt_titles_body ip)
             else if k = ''type'' then fst (type_body ip)
             else if k = ''status'' then fst (status_body pg)
             else if k = ''genres'' then fst (of_result (og_genres d))
             else if k = ''score'' then fst (score_body pg d)
             else if k = ''rank'' then fst (rank_body ip d)
             else if k = ''popularity'' then fst (popularity_body ip d)
             else if k = ''members'' then fst (members_body ip d)
             else if k = ''favorites'' then fst (favorites_body ip d)
             else if k = ''popular_tags'' then fst (pg_popular_tags pg)
             else None))
       \<and> ((snd (picture_body ip) \<noteq> None \<longrightarrow> fst (picture_body ip) = None)
          \<and> (snd (type_body ip) \<noteq> None \<longrightarrow> fst (type_body ip) = None)
          \<and> (snd (status_body pg) \<noteq> None \<longrightarrow> fst (status_body pg) = None)
          \<and> (snd (of_result (og_genres d)) \<noteq> None \<longrightarrow> fst (of_result (og_genres d)) = None)
          \<and> (snd (score_body pg d) \<noteq> None \<longrightarrow> fst (score_body pg d) = None)
          \<and> (snd (rank_body ip d) \<noteq> None \<longrightarrow> fst (rank_body ip d) = None)
          \<and> (snd (popularity_body ip d) \<noteq> None \<longrightarrow> fst (popularity_body ip d) = None)
          \<and> (snd (members_body ip d) \<noteq> None \<longrightarrow> fst (members_body ip d) = None)
          \<and> (snd (favorites_body ip d) \<noteq> None \<longrightarrow> fst (favorites_body ip d) = None))
       \<and> (ip_favorites ip = None \<and> og_favorites d = [] \<longrightarrow>
            favorites_body ip d = (None, Some IndexError))
       \<and> (\<forall>k. k \<noteq> ''favorites'' \<longrightarrow>
            store_all (sidebar_handlers pg (d\<lparr>og_favorites := fs\<rparr>) (ip\<lparr>ip_favorites := f\<rparr>))
              Map.empty k
            = store_all (sidebar_handlers pg d ip) Map.empty k)"
proof -
  let ?hs = "sidebar_handlers pg d ip"
  have run: "Media_parse_sidebar self pg (Some d)
      = try_fields (suppress_parse_exceptions (sess self)) ?hs Map.empty"
    using assms by (rule Media_parse_sidebar_handlers)
  have on: "suppress_parse_exceptions (sess self) \<longrightarrow>
      Media_parse_sidebar self pg (Some d) = Inr (store_all ?hs Map.empty)"
    by (simp add: run try_fields_on)
  have off: "\<not> suppress_parse_exceptions (sess self) \<longrightarrow>
      Media_parse_sidebar self pg (Some d)
        = (case first_raised ?hs of Some e \<Rightarrow> Inl e | None \<Rightarrow> Inr (store_all ?hs Map.empty))"
    by (simp add: run try_fields_off)
  have gen: "snd (of_result (og_genres d)) \<noteq> None \<longrightarrow> fst (of_result (og_genres d)) = None"
    by (simp add: of_result_def split: sum.splits)
  have fav: "ip_favorites ip = None \<and> og_favorites d = [] \<longrightarrow>
      favorites_body ip d = (None, Some IndexError)"
    by (simp add: favorites_body_def)
  show ?thesis
    apply (intro conjI allI)
    subgoal by (rule on)
    subgoal by (rule off)
    subgoal by (rule sidebar_result)
    subgoal using picture_atomic by blast
    subgoal using type_atomic by blast
    subgoal using status_atomic by blast
    subgoal by (rule gen)
    subgoal using score_atomic by blast
    subgoal using rank_atomic by blast
    subgoal using popularity_atomic by blast
    subgoal using members_atomic by blast
    subgoal using favorites_atomic by blast
    subgoal by (rule fav)
    subgoal using favorites_independent by blast
    done
qed

theorem suppression_keeps_other_fields_witness:
  "\<not> pg_badresult full_page
   \<and> og_info_panel no_favorites_orig = [no_favorites_panel]
   \<and> ip_favorites no_favorites_panel = None \<and> og_favorites no_favorites_orig = []
   \<and> (\<exists>m. Media_parse_sidebar (anime_1 session_on) full_page (Some no_favorites_orig) = Inr m
          \<and> m ''favorites'' = None
          \<and> m ''members'' = Some (PInt 1234)
          \<and> m ''rank'' = Some (PInt 22)
          \<and> m ''title'' = Some (PUnicode ''Cowboy Bebop''))
   \<and> Media_parse_sidebar (anime_1 session_off) full_page (Some no_favorites_orig) = Inl IndexError"
proof -
  have b: "\<not> pg_badresult full_page" by (simp add: full_page_def blank_page_def)
  have p: "og_info_panel no_favorites_orig = no_favorites_panel # []"
    by (simp add: no_favorites_orig_def full_orig_def)
  have f: "ip_favorites no_favorites_panel = None" "og_favorites no_favorites_orig = []"
    by (simp_all add: no_favorites_panel_def full_panel_def no_favorites_orig_def full_orig_def)
  have s: "suppress_parse_exceptions (sess (anime_1 session_on))"
    "\<not> suppress_parse_exceptions (sess (anime_1 session_off))"
    by (simp_all add: anime_1_def session_on_def session_off_def)
  let ?m = "store_all (sidebar_handlers full_page no_favorites_orig no_favorites_panel) Map.empty"
  have mem: "?m ''members'' = Some (PInt 1234)" by code_simp
  have rnk: "?m ''rank'' = Some (PInt 22)" by code_simp
  have tit: "?m ''title'' = Some (PUnicode ''Cowboy Bebop'')" by code_simp
  have fav: "?m ''favorites'' = None" by code_simp
  have fr: "first_raised (sidebar_handlers full_page no_favorites_orig no_favorites_panel)
      = Some IndexError"
    by code_simp
  note on_thm = suppression_keeps_other_fields [OF b p, of "anime_1 session_on"]
  note off_thm = suppression_keeps_other_fields [OF b p, of "anime_1 session_off"]
  have on: "Media_parse_sidebar (anime_1 session_on) full_page (Some no_favorites_orig) = Inr ?m"
    using on_thm [THEN conjunct1] s(1) by (rule mp)
  have "Media_parse_sidebar (anime_1 session_off) full_page (Some no_favorites_orig)
      = (case first_raised (sidebar_handlers full_page no_favorites_orig no_favorites_panel) of
           Some e \<Rightarrow> Inl e
         | None \<Rightarrow> Inr ?m)"
    using off_thm [THEN conjunct2, THEN conjunct1] s(2) by (rule mp)
  then have off: "Media_parse_sidebar (anime_1 session_off) full_page (Some no_favorites_orig)
      = Inl IndexError"
    by (simp only: fr option.case)
  have ex: "\<exists>m. Media_parse_sidebar (anime_1 session_on) full_page (Some no_favorites_orig) = Inr m
          \<and> m ''favorites'' = None
          \<and> m ''members'' = Some (PInt 1234)
          \<and> m ''rank'' = Some (PInt 22)
          \<and> m ''title'' = Some (PUnicode ''Cowboy Bebop'')"
    apply (rule exI [of _ ?m])
    apply (intro conjI)
    subgoal by (rule on)
    subgoal by (rule fav)
    subgoal by (rule mem)
    subgoal by (rule rnk)
    subgoal by (rule tit)
    done
  have p': "og_info_panel no_favorites_orig = [no_favorites_panel]" using p by simp
  show ?thesis
    apply (intro conjI)
    subgoal by (rule b)
    subgoal by (rule p')
    subgoal by (rule f(1))
    subgoal by (rule f(2))
    subgoal by (rule ex)
    subgoal by (rule off)
    done
qed




end
